theory Spec2Isabelle
  imports Main "HOL-Library.Word"
begin

unbundle bit_operations_syntax

section \<open>Python values, errors and dictionaries\<close>

text \<open>
  The pipeline of \<^verbatim>\<open>src/src/etl.py\<close> works on loosely typed data. A
  \<open>pyval\<close> is a Python value as the JSON decoder produces it (\<^verbatim>\<open>null\<close>
  decodes to \<^verbatim>\<open>None\<close>); a JSON number with a fraction is not represented,
  since every operation of the pipeline treats a non-string value the same way
  whatever its numeric kind. A dictionary keeps its insertion order, so it is an
  association list with distinct keys.
\<close>

record date =
  year :: int
  month :: int
  day :: int

record timestamp = date +
  hour :: int
  minute :: int
  second :: int
  nanosecond :: int

datatype pyval =
    PNone
  | PBool bool
  | PInt int
  | PStr string
  | PList "pyval list"
  | PDict "(string \<times> pyval) list"

datatype error =
    KeyError
  | AttributeError
  | ValueError
  | DateParseError
  | RequestException
  | JSONDecodeError
  | DatabaseError

text \<open>
  Sequencing of steps that may raise: the first error ends the evaluation.
\<close>

definition and_then :: "error + 'a \<Rightarrow> ('a \<Rightarrow> error + 'b) \<Rightarrow> error + 'b" where
  "and_then r f = (case r of Inl e \<Rightarrow> Inl e | Inr v \<Rightarrow> f v)"

type_synonym pydict = "(string \<times> pyval) list"

text \<open>\<^verbatim>\<open>d.get(k, default)\<close> and \<^verbatim>\<open>d.get(k)\<close>.\<close>

definition dict_get_default :: "pydict \<Rightarrow> string \<Rightarrow> pyval \<Rightarrow> pyval" where
  "dict_get_default d k dflt = (case map_of d k of None \<Rightarrow> dflt | Some v \<Rightarrow> v)"

definition dict_get :: "pydict \<Rightarrow> string \<Rightarrow> pyval" where
  "dict_get d k = dict_get_default d k PNone"

text \<open>
  \<^verbatim>\<open>d[k] = v\<close>: assigning to a key that is present keeps its position,
  assigning to a new key appends.
\<close>

fun dict_set :: "('k \<times> 'v) list \<Rightarrow> 'k \<Rightarrow> 'v \<Rightarrow> ('k \<times> 'v) list" where
  "dict_set [] k v = [(k, v)]"
| "dict_set ((k', v') # d) k v =
     (if k' = k then (k, v) # d else (k', v') # dict_set d k v)"

text \<open>\<^verbatim>\<open>dict(zip(keys, values))\<close>: the pairs are inserted from left to right.\<close>

definition dict_of_pairs :: "('k \<times> 'v) list \<Rightarrow> ('k \<times> 'v) list" where
  "dict_of_pairs ps = foldl (\<lambda>d (k, v). dict_set d k v) [] ps"

section \<open>String methods\<close>

text \<open>
  \<^verbatim>\<open>s.split(sep)\<close> for a non-empty separator: the text is cut at every
  occurrence of the separator, scanning from the left; \<open>cur\<close> is the piece read so
  far. (Python raises on an empty separator; the pipeline only passes \<^verbatim>\<open>", "\<close>.)
\<close>

function split_from :: "string \<Rightarrow> string \<Rightarrow> string \<Rightarrow> string list" where
  "split_from sep cur [] = [cur]"
| "split_from sep cur (c # cs) =
     (if sep \<noteq> [] \<and> take (length sep) (c # cs) = sep
      then cur # split_from sep [] (drop (length sep) (c # cs))
      else split_from sep (cur @ [c]) cs)"
  by pat_completeness auto
termination
  by (relation "measure (\<lambda>(sep, cur, s). length s)") auto

definition str_split :: "string \<Rightarrow> string \<Rightarrow> string list" where
  "str_split s sep = split_from sep [] s"

text \<open>
  \<^verbatim>\<open>s.replace(old, new)\<close> for a non-empty \<open>old\<close>: every non-overlapping
  occurrence, from the left, is replaced.
\<close>

function str_replace :: "string \<Rightarrow> string \<Rightarrow> string \<Rightarrow> string" where
  "str_replace [] old new = []"
| "str_replace (c # cs) old new =
     (if old \<noteq> [] \<and> take (length old) (c # cs) = old
      then new @ str_replace (drop (length old) (c # cs)) old new
      else c # str_replace cs old new)"
  by pat_completeness auto
termination
  by (relation "measure (\<lambda>(s, old, new). length s)") auto

text \<open>
  A string method called on a value that is not a string raises
  \<^verbatim>\<open>AttributeError\<close> (\<^verbatim>\<open>None\<close>, numbers, lists and dictionaries have
  neither \<^verbatim>\<open>split\<close> nor \<^verbatim>\<open>replace\<close>).
\<close>

definition py_split :: "pyval \<Rightarrow> string \<Rightarrow> error + string list" where
  "py_split v sep = (case v of PStr s \<Rightarrow> Inr (str_split s sep) | _ \<Rightarrow> Inl AttributeError)"

definition py_replace :: "pyval \<Rightarrow> string \<Rightarrow> string \<Rightarrow> error + pyval" where
  "py_replace v old new =
     (case v of PStr s \<Rightarrow> Inr (PStr (str_replace s old new)) | _ \<Rightarrow> Inl AttributeError)"

section \<open>Revenue input and the distributor dimension\<close>

text \<open>
  A row of the revenue file. The theaters column is carried through unchanged, so
  its numeric representation is left open.
\<close>

record 'f revenue_row =
  rid :: string
  title :: string
  rdate :: string
  revenue :: int
  theaters :: 'f
  distributor :: string

record distributor_row =
  distributor_name :: string
  distributor_id :: int

text \<open>
  \<^verbatim>\<open>drop_duplicates()\<close> keeps the first occurrence of every value, in the
  order of the frame; \<open>seen\<close> holds the values met so far.
\<close>

primrec drop_duplicates_seen :: "'a list \<Rightarrow> 'a list \<Rightarrow> 'a list" where
  "drop_duplicates_seen seen [] = []"
| "drop_duplicates_seen seen (x # xs) =
     (if x \<in> set seen then drop_duplicates_seen seen xs
      else x # drop_duplicates_seen (x # seen) xs)"

definition drop_duplicates :: "'a list \<Rightarrow> 'a list" where
  "drop_duplicates xs = drop_duplicates_seen [] xs"

text \<open>
  \<^verbatim>\<open>process_distributors_data\<close>: the distinct distributors, re-indexed from 0,
  with \<^verbatim>\<open>distributor_id = index + 1\<close>.
\<close>

definition process_distributors_data :: "'f revenue_row list \<Rightarrow> distributor_row list" where
  "process_distributors_data df =
     map (\<lambda>(i, n). \<lparr>distributor_name = n, distributor_id = int i + 1\<rparr>)
       (enumerate 0 (drop_duplicates (map distributor df)))"

section \<open>The fact table\<close>

record 'f fact_row =
  fact_id :: string
  fact_movie_id :: int
  fact_revenue :: int
  fact_theaters :: 'f
  fact_distributor_id :: int
  fact_date :: "date option"

text \<open>
  \<^verbatim>\<open>df.merge(distributor_df, left_on="distributor", right_on="distributor_name")\<close>:
  an inner join, in the order of the left frame; a left row appears once for every
  right row with its key, and not at all when there is none.
\<close>

definition merge_distributor ::
  "'f revenue_row list \<Rightarrow> distributor_row list \<Rightarrow> ('f revenue_row \<times> distributor_row) list" where
  "merge_distributor df distributor_df =
     concat (map (\<lambda>r. map (\<lambda>d. (r, d))
       (filter (\<lambda>d. distributor_name d = distributor r) distributor_df)) df)"

text \<open>
  \<^verbatim>\<open>hash(t) & 0xffffffff\<close>. Python's string hash is seeded per process, so it is
  a parameter \<open>py_hash\<close>, fixed for a run; \<^verbatim>\<open>&\<close> on Python integers is the
  two's complement conjunction, as \<open>AND\<close> on \<^typ>\<open>int\<close>.
\<close>

definition movie_id_of :: "(string \<Rightarrow> int) \<Rightarrow> string \<Rightarrow> int" where
  "movie_id_of py_hash t = py_hash t AND 0xffffffff"

text \<open>
  \<^verbatim>\<open>pd.to_datetime(df['date']).dt.date\<close>. The library converts the column as a
  whole: it guesses one format for the column (from the first cell that holds a
  date) and then reads every cell with that format; when it finds no format it
  reads every cell on its own. A cell is read as a timestamp or as the missing value
  \<^verbatim>\<open>NaT\<close> (the empty string is), or it is rejected, and one rejected cell raises
  for the whole column. The three library functions are the fields of the parameter
  \<open>to_datetime\<close>; a cell function gives no result where the library rejects the
  cell. Timestamps carry no UTC offset. \<^verbatim>\<open>.dt.date\<close> keeps the calendar date of a
  timestamp and leaves \<^verbatim>\<open>NaT\<close> missing.
\<close>

datatype datetime64 = NaT | Timestamp timestamp

record 'fmt datetime_parser =
  guess_datetime_format_for_array :: "string list \<Rightarrow> 'fmt option"
  array_strptime :: "'fmt \<Rightarrow> string \<Rightarrow> datetime64 option"
  parse_datetime_string :: "string \<Rightarrow> datetime64 option"

definition date_of :: "timestamp \<Rightarrow> date" where
  "date_of ts = \<lparr>year = year ts, month = month ts, day = day ts\<rparr>"

definition dt_date :: "datetime64 \<Rightarrow> date option" where
  "dt_date v = (case v of NaT \<Rightarrow> None | Timestamp ts \<Rightarrow> Some (date_of ts))"

text \<open>The function that reads the cells of a given column.\<close>

definition column_parser ::
  "'fmt datetime_parser \<Rightarrow> string list \<Rightarrow> string \<Rightarrow> datetime64 option" where
  "column_parser to_datetime col =
     (case guess_datetime_format_for_array to_datetime col of
        Some fmt \<Rightarrow> array_strptime to_datetime fmt
      | None \<Rightarrow> parse_datetime_string to_datetime)"

fun parse_cells :: "(string \<Rightarrow> datetime64 option) \<Rightarrow> string list \<Rightarrow> error + datetime64 list" where
  "parse_cells parse [] = Inr []"
| "parse_cells parse (s # ss) =
     (case parse s of
        None \<Rightarrow> Inl DateParseError
      | Some ts \<Rightarrow>
          (case parse_cells parse ss of
             Inl e \<Rightarrow> Inl e
           | Inr tss \<Rightarrow> Inr (ts # tss)))"

definition to_datetime_column ::
  "'fmt datetime_parser \<Rightarrow> string list \<Rightarrow> error + datetime64 list" where
  "to_datetime_column to_datetime col = parse_cells (column_parser to_datetime col) col"

definition process_revenue_data ::
  "(string \<Rightarrow> int) \<Rightarrow> 'fmt datetime_parser \<Rightarrow>
   'f revenue_row list \<Rightarrow> distributor_row list \<Rightarrow>
   error + ('f fact_row list \<times> (string \<times> int) list)" where
  "process_revenue_data py_hash to_datetime df distributor_df =
     (let merged = merge_distributor df distributor_df;
          movie_ids = map (\<lambda>(r, d). movie_id_of py_hash (title r)) merged
      in case to_datetime_column to_datetime (map (\<lambda>(r, d). rdate r) merged) of
           Inl e \<Rightarrow> Inl e
         | Inr tss \<Rightarrow>
             Inr (map (\<lambda>((r, d), ts).
                        \<lparr>fact_id = rid r, fact_movie_id = movie_id_of py_hash (title r),
                         fact_revenue = revenue r, fact_theaters = theaters r,
                         fact_distributor_id = distributor_id d,
                         fact_date = dt_date ts\<rparr>) (zip merged tss),
                  dict_of_pairs (zip (map (\<lambda>(r, d). title r) merged) movie_ids)))"

section \<open>Metadata enrichment\<close>

text \<open>
  The HTTP client is a parameter \<open>requests_get\<close> from the request URL to the
  reply, or to the error that \<^verbatim>\<open>requests.get\<close> raises when no reply arrives.
  A reply has its transport status and the result of \<^verbatim>\<open>response.json()\<close>: the
  decoded body, which may be any JSON value, or the error raised for a body that is
  not JSON.
\<close>

record http_response =
  status_code :: int
  json :: "error + pyval"

text \<open>
  \<^verbatim>\<open>get_movie_data\<close>. Nothing in it catches an exception, so an error of the
  request or of the decoding leaves the function; \<^verbatim>\<open>data.get\<close> exists only on
  a dictionary and raises \<^verbatim>\<open>AttributeError\<close> on any other decoded value. The
  body is decoded only when the status is 200.
\<close>

definition get_movie_data ::
  "(string \<Rightarrow> error + http_response) \<Rightarrow> string \<Rightarrow> string \<Rightarrow> error + pydict option" where
  "get_movie_data requests_get omdbapi t =
     (let url_title = omdbapi @ ''&t='' @ t
      in and_then (requests_get url_title)
           (\<lambda>response.
              if status_code response = 200
              then and_then (json response)
                     (\<lambda>data. case data of
                          PDict d \<Rightarrow>
                            Inr (if dict_get d ''Response'' = PStr ''True'' then Some d else None)
                        | _ \<Rightarrow> Inl AttributeError)
              else Inr None))"

text \<open>
  The comprehension of \<^verbatim>\<open>fetch_ombdapi_data\<close> asks for the titles in the order
  of the dictionary and keeps \<open>data\<close> when it is truthy: not \<^verbatim>\<open>None\<close> and not
  an empty dictionary. \<^verbatim>\<open>{**data, "movie_id": movie_id}\<close> assigns the key in a
  copy. The first title whose request raises ends the comprehension with that error.
\<close>

definition truthy_dict :: "pydict option \<Rightarrow> bool" where
  "truthy_dict r = (case r of None \<Rightarrow> False | Some d \<Rightarrow> d \<noteq> [])"

fun fetch_ombdapi_data ::
  "(string \<Rightarrow> error + http_response) \<Rightarrow> string \<Rightarrow> (string \<times> int) list \<Rightarrow>
   error + pydict list" where
  "fetch_ombdapi_data requests_get omdbapi [] = Inr []"
| "fetch_ombdapi_data requests_get omdbapi ((t, movie_id) # movies) =
     and_then (get_movie_data requests_get omdbapi t)
       (\<lambda>data.
     and_then (fetch_ombdapi_data requests_get omdbapi movies)
       (\<lambda>rest.
          Inr (if truthy_dict data
               then dict_set (the data) ''movie_id'' (PInt movie_id) # rest
               else rest)))"

section \<open>Movie, genre and bridge tables\<close>

text \<open>
  A cell of the movie dimension is a decoded value, a calendar date or the missing
  date \<^verbatim>\<open>NaT\<close>; a row of the movie dimension is the dictionary literal of the
  source, column by column.
\<close>

datatype cell = CVal pyval | CDate date | CNaT

type_synonym movie_row = "(string \<times> cell) list"

record genre_row =
  genre_id :: int
  genre_name :: string

record bridge_row =
  bridge_movie_id :: pyval
  bridge_genre_id :: int

text \<open>
  The inner loop over the genres of one movie. A new, non-empty genre is given the
  next id; the bridge row is appended for every genre, and \<^verbatim>\<open>dim_genres[genre]\<close>
  raises \<^verbatim>\<open>KeyError\<close> on a key that is absent.
\<close>

fun genres_loop ::
  "pyval \<Rightarrow> (string \<times> int) list \<Rightarrow> bridge_row list \<Rightarrow> string list \<Rightarrow>
   error + ((string \<times> int) list \<times> bridge_row list)" where
  "genres_loop movie_id dim_genres bridge_movie_genre [] = Inr (dim_genres, bridge_movie_genre)"
| "genres_loop movie_id dim_genres bridge_movie_genre (genre # genres) =
     (let dim_genres' =
            (if genre \<noteq> [] \<and> map_of dim_genres genre = None
             then dict_set dim_genres genre (int (length dim_genres) + 1)
             else dim_genres)
      in case map_of dim_genres' genre of
           None \<Rightarrow> Inl KeyError
         | Some g \<Rightarrow>
             genres_loop movie_id dim_genres'
               (bridge_movie_genre @ [\<lparr>bridge_movie_id = movie_id, bridge_genre_id = g\<rparr>])
               genres)"

text \<open>
  The row of \<^verbatim>\<open>dim_movies\<close> for one record; the values of the dictionary
  literal are evaluated in the order written, so the first one that raises decides
  the error. Two library functions are parameters: \<open>released_date v\<close> is
  \<^verbatim>\<open>pd.to_datetime(v, format="%d %b %Y").date()\<close>, an error where that raises
  and no date where it gives \<^verbatim>\<open>NaT\<close> (as the library does for a missing
  value), and \<open>json_dumps\<close> is \<^verbatim>\<open>json.dumps\<close>.
\<close>

definition dim_movie_row ::
  "(pyval \<Rightarrow> error + date option) \<Rightarrow> (pyval \<Rightarrow> string) \<Rightarrow> pydict \<Rightarrow> error + movie_row" where
  "dim_movie_row released_date json_dumps data =
     and_then
       (if dict_get data ''Released'' \<noteq> PStr ''N/A''
        then and_then (released_date (dict_get data ''Released''))
               (\<lambda>d. Inr (case d of None \<Rightarrow> CNaT | Some d \<Rightarrow> CDate d))
        else Inr (CVal PNone))
       (\<lambda>released.
     and_then
       (if dict_get data ''Runtime'' \<noteq> PStr ''N/A''
        then py_replace (dict_get_default data ''Runtime'' PNone) '' min'' ''''
        else Inr PNone)
       (\<lambda>runtime_minutes.
     and_then (py_replace (dict_get data ''imdbVotes'') '','' '''')
       (\<lambda>imdb_votes.
     and_then
       (if dict_get data ''BoxOffice'' \<noteq> PStr ''N/A''
        then and_then (py_replace (dict_get_default data ''BoxOffice'' (PStr '''')) ''$'' '''')
               (\<lambda>v. py_replace v '','' '''')
        else Inr PNone)
       (\<lambda>box_office_total.
     Inr [(''movie_id'', CVal (dict_get data ''movie_id'')),
          (''title'', CVal (dict_get data ''Title'')),
          (''year'', CVal (dict_get data ''Year'')),
          (''released'', released),
          (''runtime_minutes'', CVal runtime_minutes),
          (''director'', CVal (dict_get data ''Director'')),
          (''writer'', CVal (dict_get data ''Writer'')),
          (''actors'', CVal (dict_get data ''Actors'')),
          (''plot'', CVal (dict_get data ''Plot'')),
          (''language'', CVal (dict_get data ''Language'')),
          (''country'', CVal (dict_get data ''Country'')),
          (''awards'', CVal (dict_get data ''Awards'')),
          (''ratings'', CVal (PStr (json_dumps (dict_get_default data ''Ratings'' (PList []))))),
          (''metascore'', CVal (dict_get data ''Metascore'')),
          (''imdb_rating'',
             CVal (if dict_get data ''imdbRating'' \<noteq> PStr ''N/A''
                   then dict_get data ''imdbRating'' else PNone)),
          (''imdb_votes'', CVal imdb_votes),
          (''box_office_total'', CVal box_office_total),
          (''production'', CVal (dict_get data ''Production'')),
          (''website'', CVal (dict_get data ''Website'')),
          (''poster'', CVal (dict_get data ''Poster''))]))))"

text \<open>The loop over the records, threading the three accumulators.\<close>

fun movies_loop ::
  "(pyval \<Rightarrow> error + date option) \<Rightarrow> (pyval \<Rightarrow> string) \<Rightarrow>
   (string \<times> int) list \<Rightarrow> movie_row list \<Rightarrow> bridge_row list \<Rightarrow> pydict list \<Rightarrow>
   error + ((string \<times> int) list \<times> movie_row list \<times> bridge_row list)" where
  "movies_loop released_date json_dumps dim_genres dim_movies bridge_movie_genre [] =
     Inr (dim_genres, dim_movies, bridge_movie_genre)"
| "movies_loop released_date json_dumps dim_genres dim_movies bridge_movie_genre (data # rest) =
     (let movie_id = dict_get data ''movie_id''
      in and_then (py_split (dict_get_default data ''Genre'' (PStr '''')) '', '')
           (\<lambda>genres.
         and_then (genres_loop movie_id dim_genres bridge_movie_genre genres)
           (\<lambda>(dim_genres', bridge_movie_genre').
         and_then (dim_movie_row released_date json_dumps data)
           (\<lambda>row.
         movies_loop released_date json_dumps dim_genres' (dim_movies @ [row])
           bridge_movie_genre' rest))))"

text \<open>
  \<^verbatim>\<open>.replace(['N/A', ''], None)\<close> on the assembled frame: every cell equal to one
  of the two strings becomes \<^verbatim>\<open>None\<close>.
\<close>

definition replace_cell :: "cell \<Rightarrow> cell" where
  "replace_cell c = (if c = CVal (PStr ''N/A'') \<or> c = CVal (PStr '''') then CVal PNone else c)"

definition replace_frame :: "movie_row list \<Rightarrow> movie_row list" where
  "replace_frame df = map (map (\<lambda>(col, c). (col, replace_cell c))) df"

definition process_movies_data ::
  "(pyval \<Rightarrow> error + date option) \<Rightarrow> (pyval \<Rightarrow> string) \<Rightarrow> pydict list \<Rightarrow>
   error + (movie_row list \<times> genre_row list \<times> bridge_row list)" where
  "process_movies_data released_date json_dumps movies_data =
     and_then (movies_loop released_date json_dumps [] [] [] movies_data)
       (\<lambda>(dim_genres, dim_movies, bridge_movie_genre).
          Inr (replace_frame dim_movies,
               map (\<lambda>(k, v). \<lparr>genre_id = v, genre_name = k\<rparr>) dim_genres,
               bridge_movie_genre))"

section \<open>Schemas and persistence\<close>

datatype sql_type = SqlInteger | SqlString | SqlDate | SqlFloat | SqlText

datatype table_schemas =
  Dim_movies | Dim_genres | Bridge_movie_genre | Dim_distributor | Fact_revenues

text \<open>The value of each member of the enumeration \<^verbatim>\<open>TableSchemas\<close>.\<close>

fun schema :: "table_schemas \<Rightarrow> (string \<times> sql_type) list" where
  "schema Dim_movies =
     [(''movie_id'', SqlInteger), (''title'', SqlString), (''year'', SqlInteger),
      (''released'', SqlDate), (''runtime_minutes'', SqlInteger), (''director'', SqlString),
      (''writer'', SqlString), (''actors'', SqlString), (''plot'', SqlText),
      (''language'', SqlString), (''country'', SqlString), (''awards'', SqlString),
      (''ratings'', SqlString), (''metascore'', SqlInteger), (''imdb_rating'', SqlFloat),
      (''imdb_votes'', SqlInteger), (''box_office_total'', SqlString),
      (''production'', SqlString), (''website'', SqlString), (''poster'', SqlString)]"
| "schema Dim_genres = [(''genre_id'', SqlInteger), (''genre_name'', SqlString)]"
| "schema Bridge_movie_genre = [(''movie_id'', SqlInteger), (''genre_id'', SqlInteger)]"
| "schema Dim_distributor = [(''distributor_id'', SqlInteger), (''distributor_name'', SqlString)]"
| "schema Fact_revenues =
     [(''id'', SqlString), (''movie_id'', SqlInteger), (''revenue'', SqlInteger),
      (''theaters'', SqlFloat), (''distributor_id'', SqlInteger), (''date'', SqlDate)]"

text \<open>\<^verbatim>\<open>cls[table_name]\<close>: the member of that name, if there is one.\<close>

definition member_named :: "string \<Rightarrow> table_schemas option" where
  "member_named table_name =
     map_of [(''dim_movies'', Dim_movies), (''dim_genres'', Dim_genres),
             (''bridge_movie_genre'', Bridge_movie_genre),
             (''dim_distributor'', Dim_distributor),
             (''fact_revenues'', Fact_revenues)] table_name"

definition get_schema :: "string \<Rightarrow> error + (string \<times> sql_type) list" where
  "get_schema table_name =
     (case member_named table_name of
        None \<Rightarrow> Inl ValueError
      | Some m \<Rightarrow> Inr (schema m))"

text \<open>
  The store maps the name of each table that exists to the table's column types and
  to the frames whose rows it holds, in the order in which they were written.

  \<^verbatim>\<open>df.to_sql(name, conn, if_exists=..., index=False, dtype=...)\<close>: on a table
  that exists, \<^verbatim>\<open>"fail"\<close> raises, \<^verbatim>\<open>"append"\<close> adds the rows of the frame to
  the table and \<^verbatim>\<open>"replace"\<close> drops the table and creates it again from the
  frame; a table that does not exist is created. The database engine is a parameter
  \<open>database\<close>: the error it raises when a table of the given column types is
  created and filled from the given frame (a frame without columns, a value that
  does not fit its column), if it raises. What the store holds after a write that
  raised is not modelled: the error ends the run.
\<close>

datatype if_exists = Fail | Replace | Append

type_synonym table_schema = "(string \<times> sql_type) list"

type_synonym 'df store = "string \<rightharpoonup> (table_schema \<times> 'df list)"

definition to_sql ::
  "(table_schema \<Rightarrow> 'df \<Rightarrow> error option) \<Rightarrow> 'df \<Rightarrow> string \<Rightarrow> 'df store \<Rightarrow> if_exists \<Rightarrow>
   table_schema \<Rightarrow> error + 'df store" where
  "to_sql database df name conn mode dtype =
     (let create =
            (case database dtype df of
               Some e \<Rightarrow> Inl e
             | None \<Rightarrow> Inr (conn(name \<mapsto> (dtype, [df]))))
      in case conn name of
           None \<Rightarrow> create
         | Some (old_schema, old_frames) \<Rightarrow>
             (case mode of
                Fail \<Rightarrow> Inl ValueError
              | Replace \<Rightarrow> create
              | Append \<Rightarrow>
                  (case database old_schema df of
                     Some e \<Rightarrow> Inl e
                   | None \<Rightarrow> Inr (conn(name \<mapsto> (old_schema, old_frames @ [df]))))))"

definition save_to_sqlite ::
  "(table_schema \<Rightarrow> 'df \<Rightarrow> error option) \<Rightarrow> 'df store \<Rightarrow> 'df \<Rightarrow> string \<Rightarrow> error + 'df store" where
  "save_to_sqlite database conn df table_name =
     and_then (get_schema table_name)
       (\<lambda>table_schema. to_sql database df table_name conn Replace table_schema)"

section \<open>The pipeline\<close>

datatype 'f frame =
    MovieFrame "movie_row list"
  | GenreFrame "genre_row list"
  | BridgeFrame "bridge_row list"
  | DistributorFrame "distributor_row list"
  | FactFrame "'f fact_row list"

fun save_all ::
  "(table_schema \<Rightarrow> 'df \<Rightarrow> error option) \<Rightarrow> 'df store \<Rightarrow> (string \<times> 'df) list \<Rightarrow>
   error + 'df store" where
  "save_all database conn [] = Inr conn"
| "save_all database conn ((table_name, df) # rest) =
     and_then (save_to_sqlite database conn df table_name)
       (\<lambda>conn'. save_all database conn' rest)"

text \<open>
  \<^verbatim>\<open>run\<close>, from the rows of the revenue file and the store to the store after
  the five writes; \<open>run_tables\<close> is its part before the writes.
\<close>

definition run_tables ::
  "(string \<Rightarrow> int) \<Rightarrow> 'fmt datetime_parser \<Rightarrow> (string \<Rightarrow> error + http_response) \<Rightarrow> string \<Rightarrow>
   (pyval \<Rightarrow> error + date option) \<Rightarrow> (pyval \<Rightarrow> string) \<Rightarrow> 'f revenue_row list \<Rightarrow>
   error + (movie_row list \<times> genre_row list \<times> bridge_row list \<times>
            distributor_row list \<times> 'f fact_row list)" where
  "run_tables py_hash to_datetime requests_get omdbapi released_date json_dumps csv =
     (let revenue_df = take 900 csv;
          distributor_df = process_distributors_data revenue_df
      in and_then (process_revenue_data py_hash to_datetime revenue_df distributor_df)
           (\<lambda>(fact_revenues_df, movie_id_dict).
         and_then (fetch_ombdapi_data requests_get omdbapi movie_id_dict)
           (\<lambda>movies_data.
         and_then (process_movies_data released_date json_dumps movies_data)
           (\<lambda>(dim_movies_df, dim_genres_df, bridge_movie_genre_df).
            Inr (dim_movies_df, dim_genres_df, bridge_movie_genre_df,
                 distributor_df, fact_revenues_df)))))"

definition run ::
  "(string \<Rightarrow> int) \<Rightarrow> 'fmt datetime_parser \<Rightarrow> (string \<Rightarrow> error + http_response) \<Rightarrow> string \<Rightarrow>
   (pyval \<Rightarrow> error + date option) \<Rightarrow> (pyval \<Rightarrow> string) \<Rightarrow>
   (table_schema \<Rightarrow> 'f frame \<Rightarrow> error option) \<Rightarrow> 'f revenue_row list \<Rightarrow>
   'f frame store \<Rightarrow> error + 'f frame store" where
  "run py_hash to_datetime requests_get omdbapi released_date json_dumps database csv conn =
     and_then (run_tables py_hash to_datetime requests_get omdbapi released_date json_dumps csv)
       (\<lambda>(dim_movies_df, dim_genres_df, bridge_movie_genre_df, distributor_df, fact_revenues_df).
          save_all database conn
            [(''dim_movies'', MovieFrame dim_movies_df),
             (''dim_genres'', GenreFrame dim_genres_df),
             (''bridge_movie_genre'', BridgeFrame bridge_movie_genre_df),
             (''dim_distributor'', DistributorFrame distributor_df),
             (''fact_revenues'', FactFrame fact_revenues_df)])"

section \<open>Vocabulary of the properties\<close>

text \<open>
  The position at which a value is first met in a list (the length of the list when
  it never is): the first-seen order of the specification compares these.
\<close>

definition first_seen :: "'a list \<Rightarrow> 'a \<Rightarrow> nat" where
  "first_seen xs x = length (takeWhile (\<lambda>y. y \<noteq> x) xs)"

text \<open>
  The genre names of one record, as the loop of \<^verbatim>\<open>process_movies_data\<close> reads
  them: the pieces of the \<^verbatim>\<open>Genre\<close> field, an absent field counting as the
  empty string (and no names where the field is not a string).
\<close>

definition genres_of :: "pydict \<Rightarrow> string list" where
  "genres_of data =
     (case py_split (dict_get_default data ''Genre'' (PStr '''')) '', '' of
        Inl e \<Rightarrow> []
      | Inr genres \<Rightarrow> genres)"

text \<open>
  The dictionary of genres is well formed when its ids count up from 1 in the order
  of insertion, its names are distinct and none of them is empty.
\<close>

definition genres_wf :: "(string \<times> int) list \<Rightarrow> bool" where
  "genres_wf dg \<longleftrightarrow>
     map snd dg = [1..int (length dg)] \<and> distinct (map fst dg) \<and> [] \<notin> set (map fst dg)"

text \<open>\<^verbatim>\<open>del d[k]\<close>, to build a record that lacks a field.\<close>

definition dict_del :: "pydict \<Rightarrow> string \<Rightarrow> pydict" where
  "dict_del d k = filter (\<lambda>(k', v). k' \<noteq> k) d"




text \<open>
  A date string is unparsable when the library rejects it whatever format it has
  chosen for the column: neither its cell-by-cell reader nor its reader for any
  format accepts the string.
\<close>

definition unparsable :: "'fmt datetime_parser \<Rightarrow> string \<Rightarrow> bool" where
  "unparsable to_datetime s \<longleftrightarrow>
     parse_datetime_string to_datetime s = None \<and>
     (\<forall>fmt. array_strptime to_datetime fmt s = None)"


section \<open>Example records\<close>

text \<open>
  Two enriched records, as the provider returns them for a resolved title, and
  stand-ins for the two library functions: a date parser that knows the one date of
  the examples, and a serializer for the empty list of ratings.
\<close>

definition example_inception :: pydict where
  "example_inception =
     [(''Title'', PStr ''Inception''), (''Released'', PStr ''16 Jul 2010''),
      (''Runtime'', PStr ''148 min''), (''Genre'', PStr ''Action, Sci-Fi''),
      (''Plot'', PStr ''''), (''imdbVotes'', PStr ''1,234,567''),
      (''BoxOffice'', PStr ''$292,576,195''), (''Response'', PStr ''True''),
      (''movie_id'', PInt 7)]"

definition example_heat :: pydict where
  "example_heat =
     [(''Title'', PStr ''Heat''), (''Released'', PStr ''N/A''),
      (''Runtime'', PStr ''N/A''), (''Genre'', PStr ''Drama, Action''),
      (''Plot'', PStr ''N/A''), (''imdbVotes'', PStr ''654,321''),
      (''BoxOffice'', PStr ''N/A''), (''Response'', PStr ''True''),
      (''movie_id'', PInt 9)]"

definition example_released_date :: "pyval \<Rightarrow> error + date option" where
  "example_released_date v =
     (if v = PStr ''16 Jul 2010'' then Inr (Some \<lparr>year = 2010, month = 7, day = 16\<rparr>)
      else if v = PNone then Inr None
      else Inl ValueError)"

text \<open>
  A stand-in for the date library, in the manner of the real one: it knows two
  formats, guesses the format of a column from its first cell that is not empty,
  reads an empty cell as \<^verbatim>\<open>NaT\<close>, and its cell-by-cell reader also knows a
  date with a time of day.
\<close>

definition example_midnight :: timestamp where
  "example_midnight =
     \<lparr>year = 2020, month = 12, day = 25, hour = 0, minute = 0, second = 0, nanosecond = 0\<rparr>"

definition example_afternoon :: timestamp where
  "example_afternoon =
     \<lparr>year = 2020, month = 12, day = 25, hour = 13, minute = 45, second = 0, nanosecond = 0\<rparr>"

definition example_to_datetime :: "string datetime_parser" where
  "example_to_datetime =
     \<lparr>guess_datetime_format_for_array =
        (\<lambda>col. case filter (\<lambda>s. s \<noteq> []) col of
                  [] \<Rightarrow> None
                | s # ss \<Rightarrow>
                    map_of [(''2020-12-25'', ''%Y-%m-%d''), (''12/25/2020'', ''%m/%d/%Y'')] s),
      array_strptime =
        (\<lambda>fmt s. if s = [] then Some NaT
                  else map_of [((''%Y-%m-%d'', ''2020-12-25''), Timestamp example_midnight),
                               ((''%m/%d/%Y'', ''12/25/2020''), Timestamp example_midnight)]
                         (fmt, s)),
      parse_datetime_string =
        (\<lambda>s. if s = [] then Some NaT
              else map_of [(''2020-12-25'', Timestamp example_midnight),
                           (''12/25/2020'', Timestamp example_midnight),
                           (''25 Dec 2020 13:45'', Timestamp example_afternoon)] s)\<rparr>"

definition example_json_dumps :: "pyval \<Rightarrow> string" where
  "example_json_dumps v = ''[]''"

text \<open>
  Revenue rows: one whose date has a time of day, one without a date and one whose
  date is no date; and a stand-in for the hash of the run.
\<close>

definition example_row_afternoon :: "nat revenue_row" where
  "example_row_afternoon =
     \<lparr>rid = ''r1'', title = ''A'', rdate = ''25 Dec 2020 13:45'', revenue = 100,
      theaters = 10, distributor = ''X''\<rparr>"

definition example_row_undated :: "nat revenue_row" where
  "example_row_undated =
     \<lparr>rid = ''r2'', title = ''B'', rdate = '''', revenue = 50,
      theaters = 5, distributor = ''Y''\<rparr>"

definition example_row_malformed :: "nat revenue_row" where
  "example_row_malformed =
     \<lparr>rid = ''r3'', title = ''C'', rdate = ''not a date'', revenue = 70,
      theaters = 7, distributor = ''Z''\<rparr>"


definition example_row_nowhere :: "nat revenue_row" where
  "example_row_nowhere =
     \<lparr>rid = ''r5'', title = ''Nowhere'', rdate = ''2020-12-25'', revenue = 20,
      theaters = 2, distributor = ''X''\<rparr>"

definition example_hash :: "string \<Rightarrow> int" where
  "example_hash t = 0"

text \<open>
  A stand-in for the provider. It resolves two titles, reports one as not found,
  answers one request with status 401, one with a page that is not JSON and one
  with a JSON list; no other request gets a reply.
\<close>

definition example_omdbapi :: string where
  "example_omdbapi = ''http://www.omdbapi.com/?apikey=K''"

definition example_requests_get :: "string \<Rightarrow> error + http_response" where
  "example_requests_get url =
     (if url = example_omdbapi @ ''&t=Inception''
      then Inr \<lparr>status_code = 200, json = Inr (PDict (dict_del example_inception ''movie_id''))\<rparr>
      else if url = example_omdbapi @ ''&t=Heat''
      then Inr \<lparr>status_code = 200, json = Inr (PDict (dict_del example_heat ''movie_id''))\<rparr>
      else if url = example_omdbapi @ ''&t=Nowhere''
      then Inr \<lparr>status_code = 200,
                json = Inr (PDict [(''Response'', PStr ''False''),
                                   (''Error'', PStr ''Movie not found!'')])\<rparr>
      else if url = example_omdbapi @ ''&t=Quota''
      then Inr \<lparr>status_code = 401,
                json = Inr (PDict [(''Response'', PStr ''False''),
                                   (''Error'', PStr ''Request limit reached!'')])\<rparr>
      else if url = example_omdbapi @ ''&t=Page''
      then Inr \<lparr>status_code = 200, json = Inl JSONDecodeError\<rparr>
      else if url = example_omdbapi @ ''&t=List''
      then Inr \<lparr>status_code = 200, json = Inr (PList [])\<rparr>
      else Inl RequestException)"

text \<open>
  A stand-in for the database engine: it rejects a frame that has no columns, which
  is what the constructor of a frame gives for an empty list of records.
\<close>

definition example_database :: "table_schema \<Rightarrow> nat frame \<Rightarrow> error option" where
  "example_database dtype df =
     (if df = MovieFrame [] \<or> df = GenreFrame [] \<or> df = BridgeFrame []
      then Some DatabaseError else None)"

text \<open>The three tables that the two example records normalize to.\<close>

definition example_dim_movies :: "movie_row list" where
  "example_dim_movies =
     [[(''movie_id'', CVal (PInt 7)), (''title'', CVal (PStr ''Inception'')),
       (''year'', CVal PNone),
       (''released'', CDate \<lparr>year = 2010, month = 7, day = 16\<rparr>),
       (''runtime_minutes'', CVal (PStr ''148'')), (''director'', CVal PNone),
       (''writer'', CVal PNone), (''actors'', CVal PNone), (''plot'', CVal PNone),
       (''language'', CVal PNone), (''country'', CVal PNone), (''awards'', CVal PNone),
       (''ratings'', CVal (PStr ''[]'')), (''metascore'', CVal PNone),
       (''imdb_rating'', CVal PNone), (''imdb_votes'', CVal (PStr ''1234567'')),
       (''box_office_total'', CVal (PStr ''292576195'')), (''production'', CVal PNone),
       (''website'', CVal PNone), (''poster'', CVal PNone)],
      [(''movie_id'', CVal (PInt 9)), (''title'', CVal (PStr ''Heat'')),
       (''year'', CVal PNone), (''released'', CVal PNone),
       (''runtime_minutes'', CVal PNone), (''director'', CVal PNone),
       (''writer'', CVal PNone), (''actors'', CVal PNone), (''plot'', CVal PNone),
       (''language'', CVal PNone), (''country'', CVal PNone), (''awards'', CVal PNone),
       (''ratings'', CVal (PStr ''[]'')), (''metascore'', CVal PNone),
       (''imdb_rating'', CVal PNone), (''imdb_votes'', CVal (PStr ''654321'')),
       (''box_office_total'', CVal PNone), (''production'', CVal PNone),
       (''website'', CVal PNone), (''poster'', CVal PNone)]]"

definition example_dim_genres :: "genre_row list" where
  "example_dim_genres =
     [\<lparr>genre_id = 1, genre_name = ''Action''\<rparr>,
      \<lparr>genre_id = 2, genre_name = ''Sci-Fi''\<rparr>,
      \<lparr>genre_id = 3, genre_name = ''Drama''\<rparr>]"

definition example_bridge :: "bridge_row list" where
  "example_bridge =
     [\<lparr>bridge_movie_id = PInt 7, bridge_genre_id = 1\<rparr>,
      \<lparr>bridge_movie_id = PInt 7, bridge_genre_id = 2\<rparr>,
      \<lparr>bridge_movie_id = PInt 9, bridge_genre_id = 3\<rparr>,
      \<lparr>bridge_movie_id = PInt 9, bridge_genre_id = 1\<rparr>]"

section \<open>First occurrences\<close>

lemma set_drop_duplicates_seen: "set (drop_duplicates_seen seen xs) = set xs - set seen"
  by (induction xs arbitrary: seen) auto

lemma distinct_drop_duplicates_seen: "distinct (drop_duplicates_seen seen xs)"
  by (induction xs arbitrary: seen) (auto simp: set_drop_duplicates_seen)

lemma first_seen_Cons:
  "first_seen (x # xs) y = (if y = x then 0 else Suc (first_seen xs y))"
  by (auto simp: first_seen_def)

lemma sorted_first_seen_drop_duplicates_seen:
  "sorted_wrt (<) (map (first_seen xs) (drop_duplicates_seen seen xs))"
proof (induction xs arbitrary: seen)
  case Nil
  show ?case by simp
next
  case (Cons x xs)
  have shift: "map (first_seen (x # xs)) ys = map (\<lambda>y. Suc (first_seen xs y)) ys"
    if "x \<notin> set ys" for ys
    using that by (induction ys) (auto simp: first_seen_Cons)
  have mono: "sorted_wrt (<) (map (\<lambda>y. Suc (first_seen xs y)) ys)"
    if "sorted_wrt (<) (map (first_seen xs) ys)" for ys
    using that by (simp add: sorted_wrt_map)
  show ?case
  proof (cases "x \<in> set seen")
    case True
    let ?t = "drop_duplicates_seen seen xs"
    have "x \<notin> set ?t"
      using True by (simp add: set_drop_duplicates_seen)
    then have "map (first_seen (x # xs)) ?t = map (\<lambda>y. Suc (first_seen xs y)) ?t"
      by (rule shift)
    moreover have "drop_duplicates_seen seen (x # xs) = ?t"
      using True by simp
    ultimately show ?thesis
      using mono [OF Cons.IH [of seen]] by (simp only:)
  next
    case False
    let ?t = "drop_duplicates_seen (x # seen) xs"
    have "x \<notin> set ?t"
      by (simp add: set_drop_duplicates_seen)
    then have eq: "map (first_seen (x # xs)) ?t = map (\<lambda>y. Suc (first_seen xs y)) ?t"
      by (rule shift)
    have "map (first_seen (x # xs)) (drop_duplicates_seen seen (x # xs))
        = 0 # map (first_seen (x # xs)) ?t"
      using False by (simp add: first_seen_Cons)
    moreover have "sorted_wrt (<) (0 # map (\<lambda>y. Suc (first_seen xs y)) ?t)"
      using mono [OF Cons.IH [of "x # seen"]] by simp
    ultimately show ?thesis
      by (simp only: eq)
  qed
qed

lemma distinct_drop_duplicates: "distinct (drop_duplicates xs)"
  by (simp add: drop_duplicates_def distinct_drop_duplicates_seen)

lemma set_drop_duplicates: "set (drop_duplicates xs) = set xs"
  by (simp add: drop_duplicates_def set_drop_duplicates_seen)

lemma sorted_first_seen_drop_duplicates:
  "sorted_wrt (<) (map (first_seen xs) (drop_duplicates xs))"
  by (simp add: drop_duplicates_def sorted_first_seen_drop_duplicates_seen)

lemma upto_from_1: "map (\<lambda>i. int i + 1) [0..<n] = [1..int n]"
proof (induction n)
  case 0
  show ?case by simp
next
  case (Suc n)
  have "[1..int (Suc n)] = [1..int n] @ [int n + 1]"
    using upto_rec2 [of 1 "int n + 1"] by (simp add: add.commute)
  with Suc show ?case by simp
qed

section \<open>The distributor dimension\<close>

lemma names_enumerate_rows:
  "map (distributor_name \<circ> (\<lambda>(i, n). \<lparr>distributor_name = n, distributor_id = int i + 1\<rparr>))
     (enumerate k ns) = ns"
  by (induction ns arbitrary: k) auto

lemma ids_enumerate_rows:
  "map (distributor_id \<circ> (\<lambda>(i, n). \<lparr>distributor_name = n, distributor_id = int i + 1\<rparr>))
     (enumerate k ns) = map (\<lambda>i. int i + 1) [k..<k + length ns]"
  by (induction ns arbitrary: k) (auto simp: upt_rec)

lemma names_process_distributors_data:
  "map distributor_name (process_distributors_data df) = drop_duplicates (map distributor df)"
  by (simp add: process_distributors_data_def names_enumerate_rows)

lemma length_process_distributors_data:
  "length (process_distributors_data df) = length (drop_duplicates (map distributor df))"
  by (simp add: process_distributors_data_def)

lemma ids_process_distributors_data:
  "map distributor_id (process_distributors_data df)
     = [1..int (length (drop_duplicates (map distributor df)))]"
  using ids_enumerate_rows [of 0 "drop_duplicates (map distributor df)"]
  by (simp add: process_distributors_data_def upto_from_1)

text \<open>
  C1. For every sequence of revenue records, the distributor dimension holds each
  distinct distributor name of the input exactly once, the ids are 1, 2, 3, ... down
  the table, and the names stand in the order in which they are first met in the
  input (their positions of first occurrence increase strictly).
\<close>

theorem process_distributors_data_dense_first_seen:
  "distinct (map distributor_name (process_distributors_data df)) \<and>
   set (map distributor_name (process_distributors_data df)) = set (map distributor df) \<and>
   map distributor_id (process_distributors_data df)
     = [1..int (length (process_distributors_data df))] \<and>
   sorted_wrt (<) (map (first_seen (map distributor df))
     (map distributor_name (process_distributors_data df)))"
  unfolding names_process_distributors_data length_process_distributors_data
  using ids_process_distributors_data [of df] distinct_drop_duplicates [of "map distributor df"]
    set_drop_duplicates [of "map distributor df"]
    sorted_first_seen_drop_duplicates [of "map distributor df"]
  by simp

section \<open>The fact table\<close>

lemma movie_id_of_take_bit: "movie_id_of py_hash t = take_bit 32 (py_hash t)"
proof -
  have "(0xffffffff :: int) = mask 32"
    by (simp add: mask_eq_exp_minus_1)
  then show ?thesis
    by (simp only: movie_id_of_def take_bit_eq_mask)
qed

lemma movie_id_of_range: "0 \<le> movie_id_of py_hash t \<and> movie_id_of py_hash t < 2 ^ 32"
  unfolding movie_id_of_take_bit
  by (simp only: take_bit_nonnegative take_bit_int_less_exp simp_thms)

lemma set_dict_set: "set (dict_set d k v) \<subseteq> insert (k, v) (set d)"
  by (induction d) (auto split: if_splits)

lemma set_foldl_dict_set:
  "set (foldl (\<lambda>d (k, v). dict_set d k v) d0 ps) \<subseteq> set d0 \<union> set ps"
proof (induction ps arbitrary: d0)
  case Nil
  show ?case by simp
next
  case (Cons p ps)
  obtain k v where p: "p = (k, v)" by (cases p)
  have "set (foldl (\<lambda>d (k, v). dict_set d k v) (dict_set d0 k v) ps)
      \<subseteq> set (dict_set d0 k v) \<union> set ps"
    by (rule Cons.IH)
  also have "\<dots> \<subseteq> insert (k, v) (set d0) \<union> set ps"
    using set_dict_set [of d0 k v] by blast
  finally show ?case by (auto simp: p)
qed

lemma set_dict_of_pairs: "set (dict_of_pairs ps) \<subseteq> set ps"
  using set_foldl_dict_set [of "[]" ps] by (simp add: dict_of_pairs_def)

lemma parse_cells_Inr:
  "parse_cells p ss = Inr tss \<longleftrightarrow> map p ss = map Some tss"
proof (induction ss arbitrary: tss)
  case Nil
  show ?case by auto
next
  case (Cons s ss)
  show ?case
  proof (cases "p s")
    case None
    then show ?thesis by (cases tss) auto
  next
    case (Some ts)
    show ?thesis
    proof (cases "parse_cells p ss")
      case (Inl e)
      with Some Cons.IH show ?thesis by (cases tss) auto
    next
      case (Inr tss')
      with Some Cons.IH show ?thesis by (cases tss) auto
    qed
  qed
qed

lemma parse_cells_Inl:
  "parse_cells p ss = Inl e \<longleftrightarrow> e = DateParseError \<and> (\<exists>s \<in> set ss. p s = None)"
  by (induction ss) (auto split: option.splits sum.splits)

lemma unparsable_column_parser:
  "unparsable to_datetime s \<Longrightarrow> column_parser to_datetime col s = None"
  by (simp add: unparsable_def column_parser_def split: option.splits)

text \<open>The date column of the joined frame.\<close>

lemma process_revenue_data_Inl:
  "process_revenue_data py_hash p df dd = Inl e \<longleftrightarrow>
     e = DateParseError \<and>
     (\<exists>x \<in> set (merge_distributor df dd).
        column_parser p (map (\<lambda>(r, d). rdate r) (merge_distributor df dd)) (rdate (fst x)) = None)"
proof -
  have "process_revenue_data py_hash p df dd = Inl e \<longleftrightarrow>
      to_datetime_column p (map (\<lambda>(r, d). rdate r) (merge_distributor df dd)) = Inl e"
    by (simp add: process_revenue_data_def Let_def split: sum.splits)
  then show ?thesis
    by (auto simp: to_datetime_column_def parse_cells_Inl case_prod_unfold)
qed

lemma process_revenue_data_Inr:
  assumes "process_revenue_data py_hash p df dd = Inr (facts, ids)"
  shows "\<exists>tss. map (column_parser p (map (\<lambda>(r, d). rdate r) (merge_distributor df dd)))
               (map (\<lambda>(r, d). rdate r) (merge_distributor df dd)) = map Some tss \<and>
    facts = map (\<lambda>((r, d), ts).
              \<lparr>fact_id = rid r, fact_movie_id = movie_id_of py_hash (title r),
               fact_revenue = revenue r, fact_theaters = theaters r,
               fact_distributor_id = distributor_id d,
               fact_date = dt_date ts\<rparr>) (zip (merge_distributor df dd) tss) \<and>
    ids = dict_of_pairs (zip (map (\<lambda>(r, d). title r) (merge_distributor df dd))
            (map (\<lambda>(r, d). movie_id_of py_hash (title r)) (merge_distributor df dd)))"
  using assms
  by (auto simp: process_revenue_data_def Let_def to_datetime_column_def parse_cells_Inr
      split: sum.splits)

lemma map_zip_left:
  "length xs = length ys \<Longrightarrow> map (\<lambda>p. f (fst p)) (zip xs ys) = map f xs"
  by (induction xs ys rule: list_induct2) auto

lemma fact_columns:
  assumes "process_revenue_data py_hash p df dd = Inr (facts, ids)"
  shows "map fact_id facts = map (\<lambda>(r, d). rid r) (merge_distributor df dd)"
    and "map fact_movie_id facts
           = map (\<lambda>(r, d). movie_id_of py_hash (title r)) (merge_distributor df dd)"
    and "map fact_distributor_id facts
           = map (\<lambda>(r, d). distributor_id d) (merge_distributor df dd)"
    and "map (\<lambda>f. Some (fact_date f)) facts
           = map (\<lambda>(r, d). map_option dt_date
                   (column_parser p (map (\<lambda>(r, d). rdate r) (merge_distributor df dd)) (rdate r)))
               (merge_distributor df dd)"
    and "length facts = length (merge_distributor df dd)"
proof -
  let ?m = "merge_distributor df dd"
  let ?p = "column_parser p (map (\<lambda>(r, d). rdate r) ?m)"
  obtain tss where tss: "map ?p (map (\<lambda>(r, d). rdate r) ?m) = map Some tss"
    and facts: "facts = map (\<lambda>((r, d), ts).
              \<lparr>fact_id = rid r, fact_movie_id = movie_id_of py_hash (title r),
               fact_revenue = revenue r, fact_theaters = theaters r,
               fact_distributor_id = distributor_id d,
               fact_date = dt_date ts\<rparr>) (zip ?m tss)"
    using process_revenue_data_Inr [OF assms] by blast
  have len: "length ?m = length tss"
    using arg_cong [OF tss, of length] by simp
  show "map fact_id facts = map (\<lambda>(r, d). rid r) ?m"
    using map_zip_left [OF len, of "\<lambda>x. rid (fst x)"]
    by (simp add: facts case_prod_unfold comp_def)
  show "map fact_movie_id facts = map (\<lambda>(r, d). movie_id_of py_hash (title r)) ?m"
    using map_zip_left [OF len, of "\<lambda>x. movie_id_of py_hash (title (fst x))"]
    by (simp add: facts case_prod_unfold comp_def)
  show "map fact_distributor_id facts = map (\<lambda>(r, d). distributor_id d) ?m"
    using map_zip_left [OF len, of "\<lambda>x. distributor_id (snd x)"]
    by (simp add: facts case_prod_unfold comp_def)
  show "length facts = length ?m"
    by (simp add: facts len)
  have nth: "?p (rdate (fst (?m ! i))) = Some (tss ! i)" if "i < length ?m" for i
    using arg_cong [OF tss, of "\<lambda>l. l ! i"] that len by (simp add: case_prod_unfold)
  show "map (\<lambda>f. Some (fact_date f)) facts
           = map (\<lambda>(r, d). map_option dt_date (?p (rdate r))) ?m"
    by (rule nth_equalityI)
      (simp_all add: facts len [symmetric] nth [unfolded case_prod_unfold] case_prod_unfold)
qed

lemma filter_key_unique:
  "distinct (map f xs) \<Longrightarrow> x \<in> set xs \<Longrightarrow> filter (\<lambda>y. f y = f x) xs = [x]"
proof (induction xs)
  case Nil
  then show ?case by simp
next
  case (Cons a xs)
  show ?case
  proof (cases "a = x")
    case True
    have "f x \<notin> f ` set xs"
      using Cons.prems(1) True by simp
    then have "\<forall>y \<in> set xs. f y \<noteq> f x"
      by (metis imageI)
    then have "filter (\<lambda>y. f y = f x) xs = []"
      by (simp add: filter_empty_conv)
    with True show ?thesis by simp
  next
    case False
    with Cons.prems have "x \<in> set xs" "f a \<noteq> f x" by auto
    with Cons show ?thesis by simp
  qed
qed

lemma one_distributor_row:
  assumes "r \<in> set df"
  shows "\<exists>d. filter (\<lambda>d. distributor_name d = distributor r) (process_distributors_data df) = [d]"
proof -
  let ?dd = "process_distributors_data df"
  have "distributor r \<in> set (map distributor_name ?dd)"
    using assms by (simp only: names_process_distributors_data set_drop_duplicates) simp
  then obtain d where d: "d \<in> set ?dd" "distributor_name d = distributor r"
    by auto
  have "distinct (map distributor_name ?dd)"
    by (simp only: names_process_distributors_data distinct_drop_duplicates)
  from filter_key_unique [OF this d(1)] d(2) show ?thesis
    by auto
qed

lemma merge_distributor_Cons:
  "merge_distributor (r # df) dd =
     map (\<lambda>d. (r, d)) (filter (\<lambda>d. distributor_name d = distributor r) dd)
       @ merge_distributor df dd"
  by (simp add: merge_distributor_def)

lemma merge_one_row_each:
  "\<forall>r \<in> set df. \<exists>d. filter (\<lambda>d. distributor_name d = distributor r) dd = [d]
     \<Longrightarrow> map fst (merge_distributor df dd) = df"
proof (induction df)
  case Nil
  show ?case by (simp add: merge_distributor_def)
next
  case (Cons r df)
  then obtain d where "filter (\<lambda>d. distributor_name d = distributor r) dd = [d]"
    by auto
  with Cons show ?case
    by (simp add: merge_distributor_Cons)
qed

lemma merge_own_distributors:
  "map fst (merge_distributor df (process_distributors_data df)) = df"
  by (rule merge_one_row_each) (simp add: one_distributor_row)

lemma merged_column:
  "map (\<lambda>(r, d). g r) (merge_distributor df (process_distributors_data df)) = map g df"
proof -
  have "map (\<lambda>(r, d). g r) (merge_distributor df (process_distributors_data df))
      = map g (map fst (merge_distributor df (process_distributors_data df)))"
    by (simp add: case_prod_unfold comp_def)
  then show ?thesis
    by (simp only: merge_own_distributors)
qed

lemma run_tables_Inr:
  assumes "run_tables py_hash p rg api rd jd csv = Inr (dm, dg, br, dd, facts)"
  shows "dd = process_distributors_data (take 900 csv) \<and>
    (\<exists>ids. process_revenue_data py_hash p (take 900 csv) dd = Inr (facts, ids))"
  using assms
  by (auto simp: run_tables_def Let_def and_then_def split: sum.splits prod.splits)

text \<open>
  C3. The movie id is a function of the title alone: with the hash of the run fixed,
  \<open>movie_id_of\<close> gives one id for one title, every id lies in the unsigned 32-bit
  range, every row of the fact table carries the id of its own title, and the
  title-to-id dictionary maps every title to that same id. Nothing is claimed
  about two different titles.
\<close>

theorem movie_id_pure_32bit:
  "0 \<le> movie_id_of py_hash t \<and> movie_id_of py_hash t < 2 ^ 32 \<and>
   (process_revenue_data py_hash to_datetime df distributor_df = Inr (facts, movie_id_dict) \<longrightarrow>
      map fact_movie_id facts
        = map (\<lambda>(r, d). movie_id_of py_hash (title r)) (merge_distributor df distributor_df) \<and>
      (\<forall>(t', m) \<in> set movie_id_dict. m = movie_id_of py_hash t'))"
proof (intro conjI impI)
  assume ok: "process_revenue_data py_hash to_datetime df distributor_df = Inr (facts, movie_id_dict)"
  show "map fact_movie_id facts
        = map (\<lambda>(r, d). movie_id_of py_hash (title r)) (merge_distributor df distributor_df)"
    by (rule fact_columns(2) [OF ok])
  let ?m = "merge_distributor df distributor_df"
  have "movie_id_dict = dict_of_pairs (zip (map (\<lambda>(r, d). title r) ?m)
            (map (\<lambda>(r, d). movie_id_of py_hash (title r)) ?m))"
    using process_revenue_data_Inr [OF ok] by blast
  then have "set movie_id_dict \<subseteq> set (zip (map (\<lambda>(r, d). title r) ?m)
            (map (\<lambda>(r, d). movie_id_of py_hash (title r)) ?m))"
    using set_dict_of_pairs by blast
  then show "\<forall>(t', m) \<in> set movie_id_dict. m = movie_id_of py_hash t'"
    by (auto simp: zip_map_map case_prod_unfold zip_same)
qed (use movie_id_of_range [of py_hash t] in simp_all)

theorem movie_id_pure_32bit_witness:
  "process_revenue_data (\<lambda>t. - 1)
     example_to_datetime
     [\<lparr>rid = ''r1'', title = ''A'', rdate = ''2020-12-25'', revenue = 100,
       theaters = (10 :: nat), distributor = ''X''\<rparr>]
     [\<lparr>distributor_name = ''X'', distributor_id = 1\<rparr>]
   = Inr ([\<lparr>fact_id = ''r1'', fact_movie_id = 4294967295, fact_revenue = 100,
            fact_theaters = 10, fact_distributor_id = 1,
            fact_date = Some \<lparr>year = 2020, month = 12, day = 25\<rparr>\<rparr>],
          [(''A'', 4294967295)]) \<and>
   0 \<le> movie_id_of (\<lambda>t. - 1) ''A'' \<and> movie_id_of (\<lambda>t. - 1) ''A'' < 2 ^ 32 \<and>
   movie_id_of (\<lambda>t. - 1) ''A'' = 4294967295"
proof -
  let ?h = "\<lambda>t :: string. - 1 :: int"
  let ?p = "example_to_datetime"
  let ?df = "[\<lparr>rid = ''r1'', title = ''A'', rdate = ''2020-12-25'', revenue = 100,
       theaters = (10 :: nat), distributor = ''X''\<rparr>]"
  let ?dd = "[\<lparr>distributor_name = ''X'', distributor_id = 1\<rparr>]"
  let ?facts = "[\<lparr>fact_id = ''r1'', fact_movie_id = 4294967295, fact_revenue = 100,
            fact_theaters = (10 :: nat), fact_distributor_id = 1,
            fact_date = Some \<lparr>year = 2020, month = 12, day = 25\<rparr>\<rparr>]"
  have run: "process_revenue_data ?h ?p ?df ?dd = Inr (?facts, [(''A'', 4294967295)])"
    by (simp add: process_revenue_data_def merge_distributor_def movie_id_of_def
        dict_of_pairs_def date_of_def dt_date_def to_datetime_column_def column_parser_def
        example_to_datetime_def example_midnight_def)
  show ?thesis
    using run movie_id_pure_32bit [where py_hash = ?h and t = "''A''" and to_datetime = ?p
        and df = ?df and distributor_df = ?dd and facts = ?facts
        and movie_id_dict = "[(''A'', 4294967295)]"]
    by (simp add: movie_id_of_def)
qed

text \<open>
  C10. With the distributor dimension built from the same revenue rows, the inner
  join keeps every revenue row exactly once and in order: every row's distributor
  name has exactly one row of the dimension, and a fact table that is produced has
  one row for every revenue row. The same holds in \<open>run_tables\<close> for the rows
  left by the head limit.
\<close>

theorem inner_join_keeps_every_record:
  "map fst (merge_distributor df (process_distributors_data df)) = df \<and>
   (\<forall>r \<in> set df.
      length (filter (\<lambda>d. distributor_name d = distributor r) (process_distributors_data df)) = 1) \<and>
   (process_revenue_data py_hash to_datetime df (process_distributors_data df)
        = Inr (facts, movie_id_dict) \<longrightarrow>
      length facts = length df \<and> map fact_id facts = map rid df) \<and>
   (run_tables py_hash to_datetime requests_get omdbapi released_date json_dumps csv
        = Inr (dim_movies_df, dim_genres_df, bridge_df, distributor_df, fact_revenues_df) \<longrightarrow>
      length fact_revenues_df = length (take 900 csv) \<and>
      map fact_id fact_revenues_df = map rid (take 900 csv))"
proof (intro conjI impI ballI)
  show "map fst (merge_distributor df (process_distributors_data df)) = df"
    by (rule merge_own_distributors)
next
  fix r assume "r \<in> set df"
  from one_distributor_row [OF this]
  show "length (filter (\<lambda>d. distributor_name d = distributor r) (process_distributors_data df)) = 1"
    by auto
next
  assume ok: "process_revenue_data py_hash to_datetime df (process_distributors_data df)
      = Inr (facts, movie_id_dict)"
  show "length facts = length df"
    using fact_columns(5) [OF ok] arg_cong [OF merge_own_distributors [of df], of length]
    by simp
  show "map fact_id facts = map rid df"
    using fact_columns(1) [OF ok] by (simp only: merged_column)
next
  assume "run_tables py_hash to_datetime requests_get omdbapi released_date json_dumps csv
        = Inr (dim_movies_df, dim_genres_df, bridge_df, distributor_df, fact_revenues_df)"
  from run_tables_Inr [OF this] obtain ids where
    ok: "process_revenue_data py_hash to_datetime (take 900 csv)
           (process_distributors_data (take 900 csv)) = Inr (fact_revenues_df, ids)"
    by auto
  show "length fact_revenues_df = length (take 900 csv)"
    using fact_columns(5) [OF ok]
      arg_cong [OF merge_own_distributors [of "take 900 csv"], of length]
    by simp
  show "map fact_id fact_revenues_df = map rid (take 900 csv)"
    using fact_columns(1) [OF ok] by (simp only: merged_column)
qed

theorem inner_join_keeps_every_record_witness:
  "process_revenue_data (\<lambda>t. 0)
     example_to_datetime
     [\<lparr>rid = ''r1'', title = ''A'', rdate = ''2020-12-25'', revenue = 100,
       theaters = (10 :: nat), distributor = ''X''\<rparr>,
      \<lparr>rid = ''r2'', title = ''B'', rdate = ''2020-12-25'', revenue = 50,
       theaters = 5, distributor = ''Y''\<rparr>,
      \<lparr>rid = ''r3'', title = ''A'', rdate = ''2020-12-25'', revenue = 70,
       theaters = 7, distributor = ''X''\<rparr>]
     (process_distributors_data
       [\<lparr>rid = ''r1'', title = ''A'', rdate = ''2020-12-25'', revenue = 100,
         theaters = (10 :: nat), distributor = ''X''\<rparr>,
        \<lparr>rid = ''r2'', title = ''B'', rdate = ''2020-12-25'', revenue = 50,
         theaters = 5, distributor = ''Y''\<rparr>,
        \<lparr>rid = ''r3'', title = ''A'', rdate = ''2020-12-25'', revenue = 70,
         theaters = 7, distributor = ''X''\<rparr>])
   = Inr ([\<lparr>fact_id = ''r1'', fact_movie_id = 0, fact_revenue = 100, fact_theaters = 10,
            fact_distributor_id = 1, fact_date = Some \<lparr>year = 2020, month = 12, day = 25\<rparr>\<rparr>,
           \<lparr>fact_id = ''r2'', fact_movie_id = 0, fact_revenue = 50, fact_theaters = 5,
            fact_distributor_id = 2, fact_date = Some \<lparr>year = 2020, month = 12, day = 25\<rparr>\<rparr>,
           \<lparr>fact_id = ''r3'', fact_movie_id = 0, fact_revenue = 70, fact_theaters = 7,
            fact_distributor_id = 1, fact_date = Some \<lparr>year = 2020, month = 12, day = 25\<rparr>\<rparr>],
          [(''A'', 0), (''B'', 0)]) \<and>
   run_tables (\<lambda>t. 0)
     example_to_datetime
     (\<lambda>url. Inr \<lparr>status_code = 404, json = Inl JSONDecodeError\<rparr>) ''http://www.omdbapi.com/?apikey=K''
     (\<lambda>v. Inl ValueError) (\<lambda>v. [])
     [\<lparr>rid = ''r1'', title = ''A'', rdate = ''2020-12-25'', revenue = 100,
       theaters = (10 :: nat), distributor = ''X''\<rparr>]
   = Inr ([], [], [], [\<lparr>distributor_name = ''X'', distributor_id = 1\<rparr>],
          [\<lparr>fact_id = ''r1'', fact_movie_id = 0, fact_revenue = 100, fact_theaters = 10,
            fact_distributor_id = 1, fact_date = Some \<lparr>year = 2020, month = 12, day = 25\<rparr>\<rparr>]) \<and>
   length [\<lparr>fact_id = ''r1'', fact_movie_id = 0, fact_revenue = 100, fact_theaters = (10 :: nat),
            fact_distributor_id = 1, fact_date = Some \<lparr>year = 2020, month = 12, day = 25\<rparr>\<rparr>]
     = length (take 900 [\<lparr>rid = ''r1'', title = ''A'', rdate = ''2020-12-25'', revenue = 100,
       theaters = (10 :: nat), distributor = ''X''\<rparr>])"
proof -
  let ?h = "\<lambda>t :: string. 0 :: int"
  let ?p = "example_to_datetime"
  let ?r1 = "\<lparr>rid = ''r1'', title = ''A'', rdate = ''2020-12-25'', revenue = 100,
       theaters = (10 :: nat), distributor = ''X''\<rparr>"
  let ?df = "[?r1,
      \<lparr>rid = ''r2'', title = ''B'', rdate = ''2020-12-25'', revenue = 50,
       theaters = 5, distributor = ''Y''\<rparr>,
      \<lparr>rid = ''r3'', title = ''A'', rdate = ''2020-12-25'', revenue = 70,
       theaters = 7, distributor = ''X''\<rparr>]"
  let ?f1 = "\<lparr>fact_id = ''r1'', fact_movie_id = 0, fact_revenue = 100, fact_theaters = (10 :: nat),
            fact_distributor_id = 1, fact_date = Some \<lparr>year = 2020, month = 12, day = 25\<rparr>\<rparr>"
  let ?facts = "[?f1,
           \<lparr>fact_id = ''r2'', fact_movie_id = 0, fact_revenue = 50, fact_theaters = 5,
            fact_distributor_id = 2, fact_date = Some \<lparr>year = 2020, month = 12, day = 25\<rparr>\<rparr>,
           \<lparr>fact_id = ''r3'', fact_movie_id = 0, fact_revenue = 70, fact_theaters = 7,
            fact_distributor_id = 1, fact_date = Some \<lparr>year = 2020, month = 12, day = 25\<rparr>\<rparr>]"
  let ?rg = "\<lambda>url :: string. Inr \<lparr>status_code = 404, json = Inl JSONDecodeError\<rparr> :: error + http_response"
  let ?rd = "\<lambda>v :: pyval. Inl ValueError :: error + date option"
  let ?jd = "\<lambda>v :: pyval. [] :: string"
  have dd: "process_distributors_data ?df
      = [\<lparr>distributor_name = ''X'', distributor_id = 1\<rparr>,
         \<lparr>distributor_name = ''Y'', distributor_id = 2\<rparr>]"
    by (simp add: process_distributors_data_def drop_duplicates_def)
  have rev: "process_revenue_data ?h ?p ?df (process_distributors_data ?df)
      = Inr (?facts, [(''A'', 0), (''B'', 0)])"
    unfolding dd
    by (simp add: process_revenue_data_def merge_distributor_def movie_id_of_def
        dict_of_pairs_def date_of_def dt_date_def to_datetime_column_def column_parser_def
        example_to_datetime_def example_midnight_def)
  have dd1: "process_distributors_data [?r1] = [\<lparr>distributor_name = ''X'', distributor_id = 1\<rparr>]"
    by (simp add: process_distributors_data_def drop_duplicates_def)
  have rev1: "process_revenue_data ?h ?p [?r1] [\<lparr>distributor_name = ''X'', distributor_id = 1\<rparr>]
      = Inr ([?f1], [(''A'', 0)])"
    by (simp add: process_revenue_data_def merge_distributor_def movie_id_of_def
        dict_of_pairs_def date_of_def dt_date_def to_datetime_column_def column_parser_def
        example_to_datetime_def example_midnight_def)
  have fetch: "fetch_ombdapi_data ?rg ''http://www.omdbapi.com/?apikey=K'' [(''A'', 0)] = Inr []"
    by (simp add: get_movie_data_def truthy_dict_def and_then_def)
  have movies: "process_movies_data ?rd ?jd [] = Inr ([], [], [])"
    by (simp add: process_movies_data_def and_then_def replace_frame_def)
  have tables: "run_tables ?h ?p ?rg ''http://www.omdbapi.com/?apikey=K'' ?rd ?jd [?r1]
      = Inr ([], [], [], [\<lparr>distributor_name = ''X'', distributor_id = 1\<rparr>], [?f1])"
    by (simp add: run_tables_def dd1 rev1 fetch movies and_then_def
        del: fetch_ombdapi_data.simps)
  show ?thesis
    using rev tables inner_join_keeps_every_record [where df = ?df and py_hash = ?h
        and to_datetime = ?p and facts = ?facts and movie_id_dict = "[(''A'', 0), (''B'', 0)]"
        and requests_get = ?rg and omdbapi = "''http://www.omdbapi.com/?apikey=K''"
        and released_date = ?rd and json_dumps = ?jd and csv = "[?r1]"
        and dim_movies_df = "[]" and dim_genres_df = "[]" and bridge_df = "[]"
        and distributor_df = "[\<lparr>distributor_name = ''X'', distributor_id = 1\<rparr>]"
        and fact_revenues_df = "[?f1]"]
    by simp
qed

lemma run_tables_revenue_error:
  assumes "process_revenue_data py_hash p (take 900 csv)
             (process_distributors_data (take 900 csv)) = Inl e"
  shows "run_tables py_hash p rg api rd jd csv = Inl e"
    and "run py_hash p rg api rd jd db csv conn = Inl e"
proof -
  show tables: "run_tables py_hash p rg api rd jd csv = Inl e"
    using assms by (simp add: run_tables_def Let_def and_then_def)
  show "run py_hash p rg api rd jd db csv conn = Inl e"
    by (simp add: run_def tables and_then_def)
qed

lemma unparsable_kept_date_raises:
  assumes "x \<in> set (merge_distributor df dd)" "unparsable p (rdate (fst x))"
  shows "process_revenue_data py_hash p df dd = Inl DateParseError"
proof -
  have "column_parser p (map (\<lambda>(r, d). rdate r) (merge_distributor df dd)) (rdate (fst x)) = None"
    by (rule unparsable_column_parser [OF assms(2)])
  with assms(1) show ?thesis
    unfolding process_revenue_data_Inl by blast
qed

lemma unparsable_date_raises:
  assumes "r \<in> set df" "unparsable p (rdate r)"
  shows "process_revenue_data py_hash p df (process_distributors_data df) = Inl DateParseError"
proof -
  have "r \<in> set (map fst (merge_distributor df (process_distributors_data df)))"
    using assms(1) by (simp only: merge_own_distributors)
  then obtain x where "x \<in> set (merge_distributor df (process_distributors_data df))" "fst x = r"
    by auto
  with assms(2) show ?thesis
    using unparsable_kept_date_raises [of x df "process_distributors_data df" p py_hash] by simp
qed

text \<open>
  The join comes before the conversion of the dates, so a row that the join drops is
  never read: \<open>process_revenue_data\<close>, called with a dimension that lacks the
  distributor of a row, returns a fact table whatever the date of that row. No run
  does so, since \<open>run\<close> passes the dimension built from the same rows.
\<close>

lemma dropped_row_is_not_parsed:
  "process_revenue_data example_hash example_to_datetime
     [example_row_afternoon, example_row_malformed]
     [\<lparr>distributor_name = ''X'', distributor_id = 1\<rparr>]
   = Inr ([\<lparr>fact_id = ''r1'', fact_movie_id = 0, fact_revenue = 100, fact_theaters = 10,
            fact_distributor_id = 1, fact_date = Some \<lparr>year = 2020, month = 12, day = 25\<rparr>\<rparr>],
          [(''A'', 0)])"
  by (simp add: process_revenue_data_def merge_distributor_def movie_id_of_def
      dict_of_pairs_def date_of_def dt_date_def to_datetime_column_def column_parser_def
      example_to_datetime_def example_afternoon_def example_hash_def
      example_row_afternoon_def example_row_malformed_def)

text \<open>
  One format is chosen for the whole column: a date that the library reads in a
  column of its own is rejected in a column whose first date has another format.
\<close>

lemma column_format_is_guessed_once:
  "to_datetime_column example_to_datetime [''12/25/2020''] = Inr [Timestamp example_midnight] \<and>
   to_datetime_column example_to_datetime [''2020-12-25'', ''12/25/2020''] = Inl DateParseError"
  by (simp add: to_datetime_column_def column_parser_def example_to_datetime_def)

text \<open>
  C8. When a revenue row that the inner join keeps has an unparsable date,
  \<open>process_revenue_data\<close> raises: it returns no fact table, and no row is dropped.
  In a run the distributor dimension is built from the same rows, so the join keeps
  every row, and an unparsable date in any of the rows that the head limit leaves
  makes \<open>process_revenue_data\<close>, \<open>run_tables\<close> and \<open>run\<close> raise. When the
  library accepts every date of the column, a fact table is produced; and in a fact
  table that is produced, the date of each row is the calendar date (year, month,
  day) of what the library read from the date of the revenue row, without the time
  of day; it is missing where the library read the cell as \<^verbatim>\<open>NaT\<close>.
\<close>

theorem unparsable_date_fails_run:
  "((\<exists>x \<in> set (merge_distributor df distributor_df). unparsable to_datetime (rdate (fst x))) \<longrightarrow>
      process_revenue_data py_hash to_datetime df distributor_df = Inl DateParseError) \<and>
   ((\<exists>r \<in> set df. unparsable to_datetime (rdate r)) \<longrightarrow>
      process_revenue_data py_hash to_datetime df (process_distributors_data df)
        = Inl DateParseError) \<and>
   ((\<exists>r \<in> set (take 900 csv). unparsable to_datetime (rdate r)) \<longrightarrow>
      run_tables py_hash to_datetime requests_get omdbapi released_date json_dumps csv
        = Inl DateParseError \<and>
      run py_hash to_datetime requests_get omdbapi released_date json_dumps database csv conn
        = Inl DateParseError) \<and>
   ((\<forall>r \<in> set df. column_parser to_datetime (map rdate df) (rdate r) \<noteq> None) \<longrightarrow>
      (\<exists>table ids. process_revenue_data py_hash to_datetime df (process_distributors_data df)
         = Inr (table, ids))) \<and>
   (process_revenue_data py_hash to_datetime df (process_distributors_data df)
        = Inr (facts, movie_id_dict) \<longrightarrow>
      map (\<lambda>f. Some (fact_date f)) facts
        = map (\<lambda>r. map_option dt_date (column_parser to_datetime (map rdate df) (rdate r))) df)"
proof (intro conjI impI)
  assume "\<exists>x \<in> set (merge_distributor df distributor_df). unparsable to_datetime (rdate (fst x))"
  then show "process_revenue_data py_hash to_datetime df distributor_df = Inl DateParseError"
    using unparsable_kept_date_raises by blast
next
  assume "\<exists>r \<in> set df. unparsable to_datetime (rdate r)"
  then show "process_revenue_data py_hash to_datetime df (process_distributors_data df)
      = Inl DateParseError"
    using unparsable_date_raises by blast
next
  assume "\<exists>r \<in> set (take 900 csv). unparsable to_datetime (rdate r)"
  then have raised: "process_revenue_data py_hash to_datetime (take 900 csv)
      (process_distributors_data (take 900 csv)) = Inl DateParseError"
    using unparsable_date_raises by blast
  show "run_tables py_hash to_datetime requests_get omdbapi released_date json_dumps csv
      = Inl DateParseError"
    by (rule run_tables_revenue_error(1) [OF raised])
  show "run py_hash to_datetime requests_get omdbapi released_date json_dumps database csv conn
      = Inl DateParseError"
    by (rule run_tables_revenue_error(2) [OF raised])
next
  assume accepted: "\<forall>r \<in> set df. column_parser to_datetime (map rdate df) (rdate r) \<noteq> None"
  let ?m = "merge_distributor df (process_distributors_data df)"
  have col: "map (\<lambda>(r, d). rdate r) ?m = map rdate df"
    by (rule merged_column)
  show "\<exists>table ids. process_revenue_data py_hash to_datetime df (process_distributors_data df)
      = Inr (table, ids)"
  proof (cases "process_revenue_data py_hash to_datetime df (process_distributors_data df)")
    case (Inl e)
    then obtain x where x: "x \<in> set ?m"
      "column_parser to_datetime (map (\<lambda>(r, d). rdate r) ?m) (rdate (fst x)) = None"
      unfolding process_revenue_data_Inl by blast
    from x(1) have "fst x \<in> set (map fst ?m)"
      by simp
    then have "fst x \<in> set df"
      by (simp only: merge_own_distributors)
    moreover from x(2) have "column_parser to_datetime (map rdate df) (rdate (fst x)) = None"
      by (simp only: col)
    ultimately show ?thesis
      using accepted by blast
  next
    case (Inr result)
    then show ?thesis
      by (cases result) simp
  qed
next
  assume ok: "process_revenue_data py_hash to_datetime df (process_distributors_data df)
      = Inr (facts, movie_id_dict)"
  let ?m = "merge_distributor df (process_distributors_data df)"
  have col: "map (\<lambda>(r, d). rdate r) ?m = map rdate df"
    by (rule merged_column)
  have "map (\<lambda>f. Some (fact_date f)) facts
      = map (\<lambda>(r, d). map_option dt_date (column_parser to_datetime (map rdate df) (rdate r))) ?m"
    using fact_columns(4) [OF ok] by (simp only: col)
  also have "\<dots> = map (\<lambda>r. map_option dt_date
      (column_parser to_datetime (map rdate df) (rdate r))) df"
    by (rule merged_column)
  finally show "map (\<lambda>f. Some (fact_date f)) facts
      = map (\<lambda>r. map_option dt_date (column_parser to_datetime (map rdate df) (rdate r))) df" .
qed

theorem unparsable_date_fails_run_witness:
  "unparsable example_to_datetime (rdate example_row_malformed) \<and>
   process_revenue_data example_hash example_to_datetime
     [example_row_afternoon, example_row_malformed]
     [\<lparr>distributor_name = ''Z'', distributor_id = 1\<rparr>]
   = Inl DateParseError \<and>
   process_revenue_data example_hash example_to_datetime
     [example_row_afternoon, example_row_malformed]
     (process_distributors_data [example_row_afternoon, example_row_malformed])
   = Inl DateParseError \<and>
   run_tables example_hash example_to_datetime example_requests_get example_omdbapi
     example_released_date example_json_dumps [example_row_afternoon, example_row_malformed]
   = Inl DateParseError \<and>
   run example_hash example_to_datetime example_requests_get example_omdbapi
     example_released_date example_json_dumps example_database
     [example_row_afternoon, example_row_malformed] Map.empty
   = Inl DateParseError \<and>
   process_revenue_data example_hash example_to_datetime
     [example_row_afternoon, example_row_undated]
     (process_distributors_data [example_row_afternoon, example_row_undated])
   = Inr ([\<lparr>fact_id = ''r1'', fact_movie_id = 0, fact_revenue = 100, fact_theaters = 10,
            fact_distributor_id = 1, fact_date = Some \<lparr>year = 2020, month = 12, day = 25\<rparr>\<rparr>,
           \<lparr>fact_id = ''r2'', fact_movie_id = 0, fact_revenue = 50, fact_theaters = 5,
            fact_distributor_id = 2, fact_date = None\<rparr>],
          [(''A'', 0), (''B'', 0)]) \<and>
   (\<exists>table ids. process_revenue_data example_hash example_to_datetime
      [example_row_afternoon, example_row_undated]
      (process_distributors_data [example_row_afternoon, example_row_undated])
    = Inr (table, ids)) \<and>
   map (\<lambda>r. map_option dt_date
          (column_parser example_to_datetime
             (map rdate [example_row_afternoon, example_row_undated]) (rdate r)))
     [example_row_afternoon, example_row_undated]
   = [Some (Some \<lparr>year = 2020, month = 12, day = 25\<rparr>), Some None]"
proof -
  let ?bad = "[example_row_afternoon, example_row_malformed]"
  let ?good = "[example_row_afternoon, example_row_undated]"
  let ?facts = "[\<lparr>fact_id = ''r1'', fact_movie_id = 0, fact_revenue = 100,
       fact_theaters = (10 :: nat), fact_distributor_id = 1,
       fact_date = Some \<lparr>year = 2020, month = 12, day = 25\<rparr>\<rparr>,
      \<lparr>fact_id = ''r2'', fact_movie_id = 0, fact_revenue = 50, fact_theaters = 5,
       fact_distributor_id = 2, fact_date = None\<rparr>]"
  have malformed: "unparsable example_to_datetime (rdate example_row_malformed)"
    by (simp add: unparsable_def example_to_datetime_def example_row_malformed_def)
  then have bad: "\<exists>r \<in> set ?bad. unparsable example_to_datetime (rdate r)"
    by simp
  then have head: "\<exists>r \<in> set (take 900 ?bad). unparsable example_to_datetime (rdate r)"
    by simp
  have dd: "process_distributors_data ?good
      = [\<lparr>distributor_name = ''X'', distributor_id = 1\<rparr>,
         \<lparr>distributor_name = ''Y'', distributor_id = 2\<rparr>]"
    by (simp add: process_distributors_data_def drop_duplicates_def
        example_row_afternoon_def example_row_undated_def)
  have ok: "process_revenue_data example_hash example_to_datetime ?good
      (process_distributors_data ?good) = Inr (?facts, [(''A'', 0), (''B'', 0)])"
    unfolding dd
    by (simp add: process_revenue_data_def merge_distributor_def movie_id_of_def
        dict_of_pairs_def date_of_def dt_date_def to_datetime_column_def column_parser_def
        example_to_datetime_def example_afternoon_def example_hash_def
        example_row_afternoon_def example_row_undated_def)
  have dates: "map (\<lambda>f. Some (fact_date f)) ?facts
      = [Some (Some \<lparr>year = 2020, month = 12, day = 25\<rparr>), Some None]"
    by simp
  have kept: "\<exists>x \<in> set (merge_distributor ?bad [\<lparr>distributor_name = ''Z'', distributor_id = 1\<rparr>]).
      unparsable example_to_datetime (rdate (fst x))"
    using malformed
    by (simp add: merge_distributor_def example_row_afternoon_def example_row_malformed_def)
  have accepted: "\<forall>r \<in> set ?good.
      column_parser example_to_datetime (map rdate ?good) (rdate r) \<noteq> None"
    by (simp add: column_parser_def example_to_datetime_def
        example_row_afternoon_def example_row_undated_def)
  from malformed
    unparsable_date_fails_run [where py_hash = example_hash
      and to_datetime = example_to_datetime and df = ?bad
      and distributor_df = "[\<lparr>distributor_name = ''Z'', distributor_id = 1\<rparr>]",
      THEN conjunct1, THEN mp, OF kept]
    unparsable_date_fails_run [where py_hash = example_hash
      and to_datetime = example_to_datetime and df = ?bad and csv = ?bad
      and distributor_df = "process_distributors_data ?bad"
      and requests_get = example_requests_get and omdbapi = example_omdbapi
      and released_date = example_released_date and json_dumps = example_json_dumps
      and database = example_database and conn = Map.empty,
      THEN conjunct2, THEN conjunct1, THEN mp, OF bad]
    unparsable_date_fails_run [where py_hash = example_hash
      and to_datetime = example_to_datetime and df = ?bad and csv = ?bad
      and distributor_df = "process_distributors_data ?bad"
      and requests_get = example_requests_get and omdbapi = example_omdbapi
      and released_date = example_released_date and json_dumps = example_json_dumps
      and database = example_database and conn = Map.empty,
      THEN conjunct2, THEN conjunct2, THEN conjunct1, THEN mp, OF head]
    ok
    unparsable_date_fails_run [where py_hash = example_hash
      and to_datetime = example_to_datetime and df = ?good,
      THEN conjunct2, THEN conjunct2, THEN conjunct2, THEN conjunct1, THEN mp, OF accepted]
    unparsable_date_fails_run [where py_hash = example_hash
      and to_datetime = example_to_datetime and df = ?good
      and facts = ?facts and movie_id_dict = "[(''A'', 0), (''B'', 0)]",
      THEN conjunct2, THEN conjunct2, THEN conjunct2, THEN conjunct2, THEN mp, OF ok]
    dates
  show ?thesis
    by (simp only: simp_thms)
qed

section \<open>The genre dimension\<close>

lemma drop_duplicates_seen_cong:
  "set s1 = set s2 \<Longrightarrow> drop_duplicates_seen s1 xs = drop_duplicates_seen s2 xs"
proof (induction xs arbitrary: s1 s2)
  case Nil
  show ?case by simp
next
  case (Cons x xs)
  have "drop_duplicates_seen (x # s1) xs = drop_duplicates_seen (x # s2) xs"
    by (rule Cons.IH) (simp add: Cons.prems)
  moreover have "drop_duplicates_seen s1 xs = drop_duplicates_seen s2 xs"
    by (rule Cons.IH) (rule Cons.prems)
  ultimately show ?case
    by (simp add: Cons.prems)
qed

lemma drop_duplicates_seen_append:
  "drop_duplicates_seen seen (xs @ ys)
     = drop_duplicates_seen seen xs @ drop_duplicates_seen (seen @ xs) ys"
proof (induction xs arbitrary: seen)
  case Nil
  show ?case by simp
next
  case (Cons x xs)
  have a: "drop_duplicates_seen ((x # seen) @ xs) ys = drop_duplicates_seen (seen @ x # xs) ys"
    by (rule drop_duplicates_seen_cong) auto
  have b: "drop_duplicates_seen (seen @ xs) ys = drop_duplicates_seen (seen @ x # xs) ys"
    if "x \<in> set seen"
    by (rule drop_duplicates_seen_cong) (use that in auto)
  show ?case
    using Cons.IH [of seen] Cons.IH [of "x # seen"] a b by auto
qed

lemma dict_set_new: "map_of d k = None \<Longrightarrow> dict_set d k v = d @ [(k, v)]"
  by (induction d) (auto split: if_splits)

lemma genres_wf_Nil: "genres_wf []"
  by (simp add: genres_wf_def)

lemma genres_wf_new:
  assumes "genres_wf dg" "g \<noteq> []" "map_of dg g = None"
  shows "genres_wf (dg @ [(g, int (length dg) + 1)])"
proof -
  have "g \<notin> set (map fst dg)"
    using assms(3) by (simp add: map_of_eq_None_iff)
  moreover have "[1..int (length dg) + 1] = [1..int (length dg)] @ [int (length dg) + 1]"
    using upto_rec2 [of 1 "int (length dg) + 1"] by simp
  ultimately show ?thesis
    using assms(1,2) by (simp add: genres_wf_def add.commute)
qed

lemma genres_loop_Inr:
  assumes "genres_loop movie_id dg br gs = Inr (dg', br')" "genres_wf dg"
  shows "genres_wf dg' \<and> [] \<notin> set gs \<and>
    map fst dg' = map fst dg @ drop_duplicates_seen (map fst dg) gs \<and>
    (\<exists>new. br' = br @ new \<and> length new = length gs \<and>
       (\<forall>b \<in> set new. bridge_movie_id b = movie_id \<and> bridge_genre_id b \<in> snd ` set dg')) \<and>
    set dg \<subseteq> set dg'"
  using assms
proof (induction gs arbitrary: dg br)
  case Nil
  then show ?case by simp
next
  case (Cons g gs)
  show ?case
  proof (cases "g \<noteq> [] \<and> map_of dg g = None")
    case True
    let ?dg1 = "dg @ [(g, int (length dg) + 1)]"
    let ?br1 = "br @ [\<lparr>bridge_movie_id = movie_id, bridge_genre_id = int (length dg) + 1\<rparr>]"
    have step: "genres_loop movie_id ?dg1 ?br1 gs = Inr (dg', br')"
      using Cons.prems(1) True by (simp add: dict_set_new map_add_def)
    have wf1: "genres_wf ?dg1"
      using Cons.prems(2) True by (simp add: genres_wf_new)
    from Cons.IH [OF step wf1] obtain new where
      ih: "genres_wf dg'" "[] \<notin> set gs"
        "map fst dg' = map fst ?dg1 @ drop_duplicates_seen (map fst ?dg1) gs"
        "br' = ?br1 @ new" "length new = length gs"
        "\<forall>b \<in> set new. bridge_movie_id b = movie_id \<and> bridge_genre_id b \<in> snd ` set dg'"
        "set ?dg1 \<subseteq> set dg'"
      by blast
    have notin: "g \<notin> set (map fst dg)"
      using True by (simp add: map_of_eq_None_iff)
    have "drop_duplicates_seen (map fst ?dg1) gs = drop_duplicates_seen (g # map fst dg) gs"
      by (rule drop_duplicates_seen_cong) auto
    then have names: "map fst dg' = map fst dg @ drop_duplicates_seen (map fst dg) (g # gs)"
      using ih(3) notin by simp
    have "(g, int (length dg) + 1) \<in> set dg'"
      using ih(7) by simp
    then have "int (length dg) + 1 \<in> snd ` set dg'"
      by force
    then have "\<forall>b \<in> set (\<lparr>bridge_movie_id = movie_id, bridge_genre_id = int (length dg) + 1\<rparr> # new).
        bridge_movie_id b = movie_id \<and> bridge_genre_id b \<in> snd ` set dg'"
      using ih(6) by simp
    moreover have "br' = br @ \<lparr>bridge_movie_id = movie_id, bridge_genre_id = int (length dg) + 1\<rparr> # new"
      using ih(4) by simp
    moreover have "length (\<lparr>bridge_movie_id = movie_id, bridge_genre_id = int (length dg) + 1\<rparr> # new)
        = length (g # gs)"
      using ih(5) by simp
    ultimately have "\<exists>new. br' = br @ new \<and> length new = length (g # gs) \<and>
       (\<forall>b \<in> set new. bridge_movie_id b = movie_id \<and> bridge_genre_id b \<in> snd ` set dg')"
      by blast
    moreover have "set dg \<subseteq> set dg'"
      using ih(7) by simp
    moreover have "[] \<notin> set (g # gs)"
      using ih(2) True by auto
    ultimately show ?thesis
      using ih(1) names by blast
  next
    case False
    then obtain v where v: "map_of dg g = Some v"
      using Cons.prems by (auto split: option.splits)
    have "g \<in> fst ` set dg"
      using v by (force dest: map_of_SomeD)
    moreover have "[] \<notin> fst ` set dg"
      using Cons.prems(2) by (simp add: genres_wf_def)
    ultimately have gne: "g \<noteq> []"
      by blast
    let ?br1 = "br @ [\<lparr>bridge_movie_id = movie_id, bridge_genre_id = v\<rparr>]"
    have step: "genres_loop movie_id dg ?br1 gs = Inr (dg', br')"
      using Cons.prems(1) False v by simp
    from Cons.IH [OF step Cons.prems(2)] obtain new where
      ih: "genres_wf dg'" "[] \<notin> set gs"
        "map fst dg' = map fst dg @ drop_duplicates_seen (map fst dg) gs"
        "br' = ?br1 @ new" "length new = length gs"
        "\<forall>b \<in> set new. bridge_movie_id b = movie_id \<and> bridge_genre_id b \<in> snd ` set dg'"
        "set dg \<subseteq> set dg'"
      by blast
    have isin: "g \<in> set (map fst dg)"
      using v by (force dest: map_of_SomeD)
    have names: "map fst dg' = map fst dg @ drop_duplicates_seen (map fst dg) (g # gs)"
      using ih(3) isin by simp
    have "(g, v) \<in> set dg'"
      using ih(7) v by (auto dest: map_of_SomeD)
    then have "v \<in> snd ` set dg'"
      by force
    then have "\<forall>b \<in> set (\<lparr>bridge_movie_id = movie_id, bridge_genre_id = v\<rparr> # new).
        bridge_movie_id b = movie_id \<and> bridge_genre_id b \<in> snd ` set dg'"
      using ih(6) by simp
    moreover have "br' = br @ \<lparr>bridge_movie_id = movie_id, bridge_genre_id = v\<rparr> # new"
      using ih(4) by simp
    moreover have "length (\<lparr>bridge_movie_id = movie_id, bridge_genre_id = v\<rparr> # new)
        = length (g # gs)"
      using ih(5) by simp
    ultimately have "\<exists>new. br' = br @ new \<and> length new = length (g # gs) \<and>
       (\<forall>b \<in> set new. bridge_movie_id b = movie_id \<and> bridge_genre_id b \<in> snd ` set dg')"
      by blast
    moreover have "[] \<notin> set (g # gs)"
      using ih(2) gne by auto
    ultimately show ?thesis
      using ih(1,7) names by blast
  qed
qed

section \<open>The loop over the records\<close>

lemma and_then_Inr:
  "and_then r f = Inr y \<longleftrightarrow> (\<exists>v. r = Inr v \<and> f v = Inr y)"
  by (cases r) (simp_all add: and_then_def)

lemma dim_movie_row_movie_id:
  assumes "dim_movie_row rd jd data = Inr row"
  shows "map_of row ''movie_id'' = Some (CVal (dict_get data ''movie_id''))"
proof -
  from assms obtain rest where
    "row = (''movie_id'', CVal (dict_get data ''movie_id'')) # rest"
    unfolding dim_movie_row_def and_then_Inr by blast
  then show ?thesis by simp
qed

lemma movies_loop_step:
  assumes "movies_loop rd jd dg dm br (data # rest) = Inr res"
  shows "\<exists>gs dg1 br1 row.
    py_split (dict_get_default data ''Genre'' (PStr '''')) '', '' = Inr gs \<and>
    genres_loop (dict_get data ''movie_id'') dg br gs = Inr (dg1, br1) \<and>
    dim_movie_row rd jd data = Inr row \<and>
    movies_loop rd jd dg1 (dm @ [row]) br1 rest = Inr res"
  using assms
  by (simp add: and_then_Inr Let_def)

lemma movies_loop_Inr:
  assumes "movies_loop rd jd dg dm br ms = Inr (dg', dm', br')" "genres_wf dg"
  shows "genres_wf dg' \<and> [] \<notin> set (concat (map genres_of ms)) \<and>
    map fst dg' = map fst dg @ drop_duplicates_seen (map fst dg) (concat (map genres_of ms)) \<and>
    set dg \<subseteq> set dg' \<and>
    (\<exists>rows new. dm' = dm @ rows \<and> br' = br @ new \<and> length rows = length ms \<and>
       (\<forall>b \<in> set new. bridge_genre_id b \<in> snd ` set dg' \<and>
          bridge_movie_id b \<in> (\<lambda>d. dict_get d ''movie_id'') ` set ms \<and>
          (\<exists>row \<in> set rows. map_of row ''movie_id'' = Some (CVal (bridge_movie_id b)))))"
  using assms
proof (induction ms arbitrary: dg dm br)
  case Nil
  then show ?case by simp
next
  case (Cons data rest)
  from movies_loop_step [OF Cons.prems(1)] obtain gs dg1 br1 row where
    split: "py_split (dict_get_default data ''Genre'' (PStr '''')) '', '' = Inr gs" and
    gl: "genres_loop (dict_get data ''movie_id'') dg br gs = Inr (dg1, br1)" and
    row: "dim_movie_row rd jd data = Inr row" and
    rest: "movies_loop rd jd dg1 (dm @ [row]) br1 rest = Inr (dg', dm', br')"
    by blast
  have gs: "genres_of data = gs"
    by (simp add: genres_of_def split)
  from genres_loop_Inr [OF gl Cons.prems(2)] obtain new1 where
    g: "genres_wf dg1" "[] \<notin> set gs"
      "map fst dg1 = map fst dg @ drop_duplicates_seen (map fst dg) gs"
      "br1 = br @ new1"
      "\<forall>b \<in> set new1. bridge_movie_id b = dict_get data ''movie_id'' \<and>
          bridge_genre_id b \<in> snd ` set dg1"
      "set dg \<subseteq> set dg1"
    by blast
  from Cons.IH [OF rest g(1)] obtain rows new where
    ih: "genres_wf dg'" "[] \<notin> set (concat (map genres_of rest))"
      "map fst dg' = map fst dg1 @ drop_duplicates_seen (map fst dg1) (concat (map genres_of rest))"
      "set dg1 \<subseteq> set dg'"
      "dm' = (dm @ [row]) @ rows" "br' = br1 @ new" "length rows = length rest"
      "\<forall>b \<in> set new. bridge_genre_id b \<in> snd ` set dg' \<and>
          bridge_movie_id b \<in> (\<lambda>d. dict_get d ''movie_id'') ` set rest \<and>
          (\<exists>row \<in> set rows. map_of row ''movie_id'' = Some (CVal (bridge_movie_id b)))"
    by blast
  have seen: "drop_duplicates_seen (map fst dg1) (concat (map genres_of rest))
      = drop_duplicates_seen (map fst dg @ gs) (concat (map genres_of rest))"
    by (rule drop_duplicates_seen_cong) (auto simp: g(3) set_drop_duplicates_seen)
  have "map fst dg' = map fst dg1
      @ drop_duplicates_seen (map fst dg @ gs) (concat (map genres_of rest))"
    by (simp only: ih(3) seen)
  then have names: "map fst dg' = map fst dg
      @ drop_duplicates_seen (map fst dg) (concat (map genres_of (data # rest)))"
    by (simp add: g(3) gs drop_duplicates_seen_append)
  have nonempty: "[] \<notin> set (concat (map genres_of (data # rest)))"
    using g(2) ih(2) gs by simp
  have sub: "set dg \<subseteq> set dg'"
    using g(6) ih(4) by blast
  have rowid: "map_of row ''movie_id'' = Some (CVal (dict_get data ''movie_id''))"
    by (rule dim_movie_row_movie_id [OF row])
  have b1: "bridge_genre_id b \<in> snd ` set dg' \<and>
      bridge_movie_id b \<in> (\<lambda>d. dict_get d ''movie_id'') ` set (data # rest) \<and>
      (\<exists>r \<in> set (row # rows). map_of r ''movie_id'' = Some (CVal (bridge_movie_id b)))"
    if "b \<in> set new1" for b
  proof -
    from g(5) that have "bridge_movie_id b = dict_get data ''movie_id''"
      and "bridge_genre_id b \<in> snd ` set dg1"
      by auto
    with ih(4) rowid show ?thesis
      by auto
  qed
  have b2: "bridge_genre_id b \<in> snd ` set dg' \<and>
      bridge_movie_id b \<in> (\<lambda>d. dict_get d ''movie_id'') ` set (data # rest) \<and>
      (\<exists>r \<in> set (row # rows). map_of r ''movie_id'' = Some (CVal (bridge_movie_id b)))"
    if "b \<in> set new" for b
    using ih(8) that by auto
  have "\<forall>b \<in> set (new1 @ new). bridge_genre_id b \<in> snd ` set dg' \<and>
      bridge_movie_id b \<in> (\<lambda>d. dict_get d ''movie_id'') ` set (data # rest) \<and>
      (\<exists>r \<in> set (row # rows). map_of r ''movie_id'' = Some (CVal (bridge_movie_id b)))"
    using b1 b2 by auto
  moreover have "dm' = dm @ (row # rows)" "br' = br @ (new1 @ new)"
    "length (row # rows) = length (data # rest)"
    using ih(5,6,7) g(4) by simp_all
  ultimately have "\<exists>rows new. dm' = dm @ rows \<and> br' = br @ new \<and>
       length rows = length (data # rest) \<and>
       (\<forall>b \<in> set new. bridge_genre_id b \<in> snd ` set dg' \<and>
          bridge_movie_id b \<in> (\<lambda>d. dict_get d ''movie_id'') ` set (data # rest) \<and>
          (\<exists>row \<in> set rows. map_of row ''movie_id'' = Some (CVal (bridge_movie_id b))))"
    by blast
  with ih(1) nonempty names sub show ?case
    by blast
qed

lemma process_movies_data_Inr:
  assumes "process_movies_data rd jd ms = Inr (dim_movies_df, dim_genres_df, bridge_df)"
  shows "\<exists>dg dm. movies_loop rd jd [] [] [] ms = Inr (dg, dm, bridge_df) \<and>
    dim_movies_df = replace_frame dm \<and>
    dim_genres_df = map (\<lambda>(k, v). \<lparr>genre_id = v, genre_name = k\<rparr>) dg"
  using assms
  by (auto simp: process_movies_data_def and_then_Inr)

lemma genre_columns:
  "map genre_name (map (\<lambda>(k, v). \<lparr>genre_id = v, genre_name = k\<rparr>) dg) = map fst dg"
  "map genre_id (map (\<lambda>(k, v). \<lparr>genre_id = v, genre_name = k\<rparr>) dg) = map snd dg"
  by (simp_all add: case_prod_unfold comp_def)

lemma map_of_replace_row:
  "map_of (map (\<lambda>(col, c). (col, replace_cell c)) row) k = map_option replace_cell (map_of row k)"
  by (induction row) auto

lemma movies_loop_genres:
  assumes "process_movies_data rd jd ms = Inr (dim_movies_df, dim_genres_df, bridge_df)"
  shows "[] \<notin> set (concat (map genres_of ms))"
    and "map genre_name dim_genres_df = drop_duplicates (concat (map genres_of ms))"
    and "map genre_id dim_genres_df = [1..int (length dim_genres_df)]"
proof -
  from process_movies_data_Inr [OF assms] obtain dg dm where
    loop: "movies_loop rd jd [] [] [] ms = Inr (dg, dm, bridge_df)" and
    dg: "dim_genres_df = map (\<lambda>(k, v). \<lparr>genre_id = v, genre_name = k\<rparr>) dg"
    by blast
  from movies_loop_Inr [OF loop genres_wf_Nil]
  have wf: "genres_wf dg" and ne: "[] \<notin> set (concat (map genres_of ms))"
    and names: "map fst dg = drop_duplicates_seen [] (concat (map genres_of ms))"
    by simp_all
  show "[] \<notin> set (concat (map genres_of ms))"
    by (rule ne)
  show "map genre_name dim_genres_df = drop_duplicates (concat (map genres_of ms))"
    by (simp only: dg genre_columns names drop_duplicates_def)
  have "length dim_genres_df = length dg"
    by (simp add: dg)
  then show "map genre_id dim_genres_df = [1..int (length dim_genres_df)]"
    using wf by (simp only: dg genre_columns genres_wf_def)
qed

section \<open>The example run\<close>

lemma example_run:
  "process_movies_data example_released_date example_json_dumps
     [example_inception, example_heat]
   = Inr (example_dim_movies, example_dim_genres, example_bridge)"
  by (simp add: process_movies_data_def example_inception_def example_heat_def
      example_released_date_def example_json_dumps_def and_then_def dict_get_def
      dict_get_default_def py_split_def py_replace_def str_split_def dim_movie_row_def
      replace_frame_def replace_cell_def Let_def
      example_dim_movies_def example_dim_genres_def example_bridge_def)

section \<open>Genre ids and bridge rows\<close>

text \<open>
  C2. Whenever \<open>process_movies_data\<close> returns its tables, the genre dimension
  holds every genre name of the input exactly once, none of them empty, with the ids
  1, 2, 3, ... down the table, and the names stand in the order in which they are
  first met in the genre fields of the whole input list, read record after record,
  whichever record they come from. (An empty genre name never gets an id; a run
  that meets one returns no tables.)
\<close>

theorem genre_ids_dense_first_seen:
  assumes "process_movies_data released_date json_dumps movies_data
             = Inr (dim_movies_df, dim_genres_df, bridge_df)"
  shows "distinct (map genre_name dim_genres_df) \<and>
    [] \<notin> set (map genre_name dim_genres_df) \<and>
    set (map genre_name dim_genres_df)
      = set (filter (\<lambda>g. g \<noteq> []) (concat (map genres_of movies_data))) \<and>
    map genre_id dim_genres_df = [1..int (length dim_genres_df)] \<and>
    sorted_wrt (<)
      (map (first_seen (filter (\<lambda>g. g \<noteq> []) (concat (map genres_of movies_data))))
        (map genre_name dim_genres_df))"
proof -
  let ?all = "concat (map genres_of movies_data)"
  have "\<forall>g \<in> set ?all. g \<noteq> []"
    using movies_loop_genres(1) [OF assms] by metis
  then have all: "filter (\<lambda>g. g \<noteq> []) ?all = ?all"
    by (simp only: filter_id_conv)
  have names: "map genre_name dim_genres_df = drop_duplicates ?all"
    by (rule movies_loop_genres(2) [OF assms])
  have "[] \<notin> set (drop_duplicates ?all)"
    using movies_loop_genres(1) [OF assms] by (simp add: set_drop_duplicates)
  then show ?thesis
    unfolding all names
    using movies_loop_genres(3) [OF assms] distinct_drop_duplicates [of ?all]
      set_drop_duplicates [of ?all] sorted_first_seen_drop_duplicates [of ?all]
    by simp
qed

theorem genre_ids_dense_first_seen_witness:
  "process_movies_data example_released_date example_json_dumps
     [example_inception, example_heat]
     = Inr (example_dim_movies, example_dim_genres, example_bridge) \<and>
   distinct (map genre_name example_dim_genres) \<and>
   [] \<notin> set (map genre_name example_dim_genres) \<and>
   set (map genre_name example_dim_genres)
     = set (filter (\<lambda>g. g \<noteq> [])
         (concat (map genres_of [example_inception, example_heat]))) \<and>
   map genre_id example_dim_genres = [1..int (length example_dim_genres)] \<and>
   sorted_wrt (<)
     (map (first_seen (filter (\<lambda>g. g \<noteq> [])
             (concat (map genres_of [example_inception, example_heat]))))
       (map genre_name example_dim_genres))"
  by (rule conjI [OF example_run genre_ids_dense_first_seen [OF example_run]])

text \<open>
  C4. Whenever \<open>process_movies_data\<close> returns its tables for records whose
  \<open>movie_id\<close> is not one of the two strings that the final pass turns into null
  (an integer id, as the enrichment step attaches, never is), every row of the
  bridge has its genre id in the genre dimension and its movie id in the
  \<open>movie_id\<close> column of the movie dimension.
\<close>

theorem bridge_rows_reference_dimensions:
  assumes "process_movies_data released_date json_dumps movies_data
             = Inr (dim_movies_df, dim_genres_df, bridge_df)"
    and "\<forall>data \<in> set movies_data.
           dict_get data ''movie_id'' \<noteq> PStr ''N/A'' \<and> dict_get data ''movie_id'' \<noteq> PStr ''''"
  shows "\<forall>b \<in> set bridge_df.
    bridge_genre_id b \<in> set (map genre_id dim_genres_df) \<and>
    (\<exists>row \<in> set dim_movies_df. map_of row ''movie_id'' = Some (CVal (bridge_movie_id b)))"
proof
  fix b assume b: "b \<in> set bridge_df"
  from process_movies_data_Inr [OF assms(1)] obtain dg dm where
    loop: "movies_loop released_date json_dumps [] [] [] movies_data = Inr (dg, dm, bridge_df)" and
    dm: "dim_movies_df = replace_frame dm" and
    dg: "dim_genres_df = map (\<lambda>(k, v). \<lparr>genre_id = v, genre_name = k\<rparr>) dg"
    by blast
  from movies_loop_Inr [OF loop genres_wf_Nil] b
  have gid: "bridge_genre_id b \<in> snd ` set dg"
    and src: "bridge_movie_id b \<in> (\<lambda>d. dict_get d ''movie_id'') ` set movies_data"
    and "\<exists>row \<in> set dm. map_of row ''movie_id'' = Some (CVal (bridge_movie_id b))"
    by auto
  then obtain row where row: "row \<in> set dm"
    "map_of row ''movie_id'' = Some (CVal (bridge_movie_id b))"
    by blast
  have "bridge_movie_id b \<noteq> PStr ''N/A'' \<and> bridge_movie_id b \<noteq> PStr ''''"
    using assms(2) src by auto
  then have keep: "replace_cell (CVal (bridge_movie_id b)) = CVal (bridge_movie_id b)"
    by (simp add: replace_cell_def)
  have "map (\<lambda>(col, c). (col, replace_cell c)) row \<in> set dim_movies_df"
    using row(1) by (simp add: dm replace_frame_def)
  moreover have "map_of (map (\<lambda>(col, c). (col, replace_cell c)) row) ''movie_id''
      = Some (CVal (bridge_movie_id b))"
    by (simp only: map_of_replace_row row(2) option.map keep)
  ultimately have "\<exists>row \<in> set dim_movies_df.
      map_of row ''movie_id'' = Some (CVal (bridge_movie_id b))"
    by blast
  moreover have "bridge_genre_id b \<in> set (map genre_id dim_genres_df)"
    using gid by (simp only: dg genre_columns set_map)
  ultimately show "bridge_genre_id b \<in> set (map genre_id dim_genres_df) \<and>
    (\<exists>row \<in> set dim_movies_df. map_of row ''movie_id'' = Some (CVal (bridge_movie_id b)))"
    by blast
qed

theorem bridge_rows_reference_dimensions_witness:
  "process_movies_data example_released_date example_json_dumps
     [example_inception, example_heat]
     = Inr (example_dim_movies, example_dim_genres, example_bridge) \<and>
   dict_get example_inception ''movie_id'' = PInt 7 \<and>
   dict_get example_heat ''movie_id'' = PInt 9 \<and>
   list_all (\<lambda>b. bridge_genre_id b \<in> set (map genre_id example_dim_genres) \<and>
               (\<exists>row \<in> set example_dim_movies.
                  map_of row ''movie_id'' = Some (CVal (bridge_movie_id b))))
     example_bridge"
proof -
  have ids: "dict_get example_inception ''movie_id'' = PInt 7"
    "dict_get example_heat ''movie_id'' = PInt 9"
    by (simp_all add: dict_get_def dict_get_default_def example_inception_def example_heat_def)
  then have "\<forall>data \<in> set [example_inception, example_heat].
      dict_get data ''movie_id'' \<noteq> PStr ''N/A'' \<and> dict_get data ''movie_id'' \<noteq> PStr ''''"
    by simp
  from bridge_rows_reference_dimensions [OF example_run this] ids example_run
  show ?thesis
    by (simp only: list_all_iff simp_thms)
qed

section \<open>Metadata enrichment\<close>











section \<open>Persistence\<close>

lemma get_schema_Inl: "get_schema table_name = Inl e \<longleftrightarrow> member_named table_name = None \<and> e = ValueError"
  by (auto simp: get_schema_def split: option.splits)





text \<open>
  A run in which the provider resolves no title: the movie dimension is the frame of
  an empty list of records, which has no columns, and the first write raises when
  the database rejects such a frame.
\<close>

lemma run_without_enriched_movie_raises:
  "run_tables example_hash example_to_datetime example_requests_get example_omdbapi
     example_released_date example_json_dumps [example_row_nowhere]
   = Inr ([], [], [], [\<lparr>distributor_name = ''X'', distributor_id = 1\<rparr>],
          [\<lparr>fact_id = ''r5'', fact_movie_id = 0, fact_revenue = 20, fact_theaters = 2,
            fact_distributor_id = 1,
            fact_date = Some \<lparr>year = 2020, month = 12, day = 25\<rparr>\<rparr>]) \<and>
   run example_hash example_to_datetime example_requests_get example_omdbapi
     example_released_date example_json_dumps example_database [example_row_nowhere] Map.empty
   = Inl DatabaseError"
proof -
  have revenue: "process_revenue_data example_hash example_to_datetime [example_row_nowhere]
      (process_distributors_data [example_row_nowhere])
      = Inr ([\<lparr>fact_id = ''r5'', fact_movie_id = 0, fact_revenue = 20, fact_theaters = 2,
               fact_distributor_id = 1,
               fact_date = Some \<lparr>year = 2020, month = 12, day = 25\<rparr>\<rparr>],
             [(''Nowhere'', 0)])"
    by (simp add: process_distributors_data_def drop_duplicates_def
        process_revenue_data_def merge_distributor_def movie_id_of_def
        dict_of_pairs_def date_of_def dt_date_def to_datetime_column_def column_parser_def
        example_to_datetime_def example_midnight_def example_hash_def example_row_nowhere_def)
  have dimension: "process_distributors_data [example_row_nowhere]
      = [\<lparr>distributor_name = ''X'', distributor_id = 1\<rparr>]"
    by (simp add: process_distributors_data_def drop_duplicates_def example_row_nowhere_def)
  have declined: "get_movie_data example_requests_get example_omdbapi ''Nowhere'' = Inr None"
    by (simp add: get_movie_data_def example_requests_get_def example_omdbapi_def and_then_def
        dict_get_def dict_get_default_def)
  have movies: "process_movies_data example_released_date example_json_dumps [] = Inr ([], [], [])"
    by (simp add: process_movies_data_def and_then_def replace_frame_def)
  have tables: "run_tables example_hash example_to_datetime example_requests_get example_omdbapi
      example_released_date example_json_dumps [example_row_nowhere]
      = Inr ([], [], [], [\<lparr>distributor_name = ''X'', distributor_id = 1\<rparr>],
          [\<lparr>fact_id = ''r5'', fact_movie_id = 0, fact_revenue = 20, fact_theaters = 2,
            fact_distributor_id = 1,
            fact_date = Some \<lparr>year = 2020, month = 12, day = 25\<rparr>\<rparr>])"
    using revenue
    by (simp add: run_tables_def Let_def dimension declined movies and_then_def truthy_dict_def)
  have "run example_hash example_to_datetime example_requests_get example_omdbapi
      example_released_date example_json_dumps example_database [example_row_nowhere] Map.empty
      = Inl DatabaseError"
    by (simp add: run_def tables and_then_def save_to_sqlite_def to_sql_def get_schema_def
        member_named_def example_database_def)
  with tables show ?thesis
    by (simp only: simp_thms)
qed




section \<open>Cleaning of the movie fields\<close>

lemma movies_loop_rows:
  assumes "movies_loop rd jd dg dm br ms = Inr (dg', dm', br')"
  shows "\<exists>rows. dm' = dm @ rows \<and>
    list_all2 (\<lambda>data row. dim_movie_row rd jd data = Inr row) ms rows"
  using assms
proof (induction ms arbitrary: dg dm br)
  case Nil
  then show ?case by simp
next
  case (Cons data rest)
  from movies_loop_step [OF Cons.prems] obtain dg1 br1 row where
    row: "dim_movie_row rd jd data = Inr row" and
    rest: "movies_loop rd jd dg1 (dm @ [row]) br1 rest = Inr (dg', dm', br')"
    by blast
  from Cons.IH [OF rest] obtain rows where
    "dm' = (dm @ [row]) @ rows"
    "list_all2 (\<lambda>data row. dim_movie_row rd jd data = Inr row) rest rows"
    by blast
  with row have "dm' = dm @ (row # rows) \<and>
    list_all2 (\<lambda>data row. dim_movie_row rd jd data = Inr row) (data # rest) (row # rows)"
    by simp
  then show ?case
    by blast
qed

lemma process_movies_data_rows:
  assumes "process_movies_data rd jd ms = Inr (dim_movies_df, dim_genres_df, bridge_df)"
  shows "\<exists>rows. list_all2 (\<lambda>data row. dim_movie_row rd jd data = Inr row) ms rows \<and>
    dim_movies_df = map (map (\<lambda>(col, c). (col, replace_cell c))) rows"
proof -
  from process_movies_data_Inr [OF assms] obtain dg dm where
    loop: "movies_loop rd jd [] [] [] ms = Inr (dg, dm, bridge_df)" and
    dm: "dim_movies_df = replace_frame dm"
    by blast
  from movies_loop_rows [OF loop] dm show ?thesis
    by (auto simp: replace_frame_def)
qed

lemma dim_movie_row_cells:
  assumes "dim_movie_row rd jd data = Inr row"
  shows "\<exists>runtime_minutes imdb_votes.
    (if dict_get data ''Runtime'' \<noteq> PStr ''N/A''
     then py_replace (dict_get_default data ''Runtime'' PNone) '' min'' ''''
     else Inr PNone) = Inr runtime_minutes \<and>
    py_replace (dict_get data ''imdbVotes'') '','' '''' = Inr imdb_votes \<and>
    map_of row ''runtime_minutes'' = Some (CVal runtime_minutes) \<and>
    map_of row ''imdb_votes'' = Some (CVal imdb_votes)"
proof -
  from assms obtain released runtime_minutes imdb_votes box_office_total where
    rt: "(if dict_get data ''Runtime'' \<noteq> PStr ''N/A''
          then py_replace (dict_get_default data ''Runtime'' PNone) '' min'' ''''
          else Inr PNone) = Inr runtime_minutes" and
    iv: "py_replace (dict_get data ''imdbVotes'') '','' '''' = Inr imdb_votes" and
    row: "row =
         [(''movie_id'', CVal (dict_get data ''movie_id'')),
          (''title'', CVal (dict_get data ''Title'')),
          (''year'', CVal (dict_get data ''Year'')),
          (''released'', released),
          (''runtime_minutes'', CVal runtime_minutes),
          (''director'', CVal (dict_get data ''Director'')),
          (''writer'', CVal (dict_get data ''Writer'')),
          (''actors'', CVal (dict_get data ''Actors'')),
          (''plot'', CVal (dict_get data ''Plot'')),
          (''language'', CVal (dict_get data ''Language'')),
          (''country'', CVal (dict_get data ''Country'')),
          (''awards'', CVal (dict_get data ''Awards'')),
          (''ratings'', CVal (PStr (jd (dict_get_default data ''Ratings'' (PList []))))),
          (''metascore'', CVal (dict_get data ''Metascore'')),
          (''imdb_rating'',
             CVal (if dict_get data ''imdbRating'' \<noteq> PStr ''N/A''
                   then dict_get data ''imdbRating'' else PNone)),
          (''imdb_votes'', CVal imdb_votes),
          (''box_office_total'', CVal box_office_total),
          (''production'', CVal (dict_get data ''Production'')),
          (''website'', CVal (dict_get data ''Website'')),
          (''poster'', CVal (dict_get data ''Poster''))]"
    unfolding dim_movie_row_def and_then_Inr by blast
  have "map_of row ''runtime_minutes'' = Some (CVal runtime_minutes)"
    "map_of row ''imdb_votes'' = Some (CVal imdb_votes)"
    by (simp_all add: row)
  with rt iv show ?thesis
    by blast
qed

lemma replace_cell_not_sentinel:
  "replace_cell c \<noteq> CVal (PStr ''N/A'') \<and> replace_cell c \<noteq> CVal (PStr '''')"
  by (simp add: replace_cell_def)

lemma str_replace_examples:
  "str_replace ''148 min'' '' min'' '''' = ''148''"
  "str_replace ''1,234,567'' '','' '''' = ''1234567''"
  by simp_all

text \<open>
  A record without a release date: the library reads the missing value as
  \<^verbatim>\<open>NaT\<close>, and the cell of the movie dimension is missing.
\<close>

lemma absent_released_date:
  "\<exists>row. dim_movie_row example_released_date example_json_dumps
            (dict_del example_inception ''Released'') = Inr row \<and>
         map_of row ''released'' = Some CNaT"
  by (simp add: dim_movie_row_def and_then_def example_released_date_def example_inception_def
      dict_del_def dict_get_def dict_get_default_def py_replace_def)

lemma cleaned_cells:
  assumes "dim_movie_row rd jd data = Inr row"
    and "cleaned = map (\<lambda>(col, c). (col, replace_cell c)) row"
  shows "dict_get data ''Runtime'' = PStr ''148 min'' \<Longrightarrow>
           map_of cleaned ''runtime_minutes'' = Some (CVal (PStr ''148''))"
    and "dict_get data ''Runtime'' = PStr ''N/A'' \<Longrightarrow>
           map_of cleaned ''runtime_minutes'' = Some (CVal PNone)"
    and "dict_get data ''imdbVotes'' = PStr ''1,234,567'' \<Longrightarrow>
           map_of cleaned ''imdb_votes'' = Some (CVal (PStr ''1234567''))"
proof -
  from dim_movie_row_cells [OF assms(1)] obtain runtime_minutes imdb_votes where
    rt: "(if dict_get data ''Runtime'' \<noteq> PStr ''N/A''
          then py_replace (dict_get_default data ''Runtime'' PNone) '' min'' ''''
          else Inr PNone) = Inr runtime_minutes" and
    iv: "py_replace (dict_get data ''imdbVotes'') '','' '''' = Inr imdb_votes" and
    cell_rt: "map_of row ''runtime_minutes'' = Some (CVal runtime_minutes)" and
    cell_iv: "map_of row ''imdb_votes'' = Some (CVal imdb_votes)"
    by blast
  have get: "dict_get_default data ''Runtime'' PNone = dict_get data ''Runtime''"
    by (simp add: dict_get_def)
  show "map_of cleaned ''runtime_minutes'' = Some (CVal (PStr ''148''))"
    if "dict_get data ''Runtime'' = PStr ''148 min''"
  proof -
    have "runtime_minutes = PStr ''148''"
      using rt that by (simp add: get py_replace_def)
    moreover have "map_of cleaned ''runtime_minutes'' = Some (replace_cell (CVal runtime_minutes))"
      by (simp only: assms(2) map_of_replace_row cell_rt option.map)
    ultimately show ?thesis
      by (simp add: replace_cell_def)
  qed
  show "map_of cleaned ''runtime_minutes'' = Some (CVal PNone)"
    if "dict_get data ''Runtime'' = PStr ''N/A''"
  proof -
    have "runtime_minutes = PNone"
      using rt that by simp
    moreover have "map_of cleaned ''runtime_minutes'' = Some (replace_cell (CVal runtime_minutes))"
      by (simp only: assms(2) map_of_replace_row cell_rt option.map)
    ultimately show ?thesis
      by (simp add: replace_cell_def)
  qed
  show "map_of cleaned ''imdb_votes'' = Some (CVal (PStr ''1234567''))"
    if "dict_get data ''imdbVotes'' = PStr ''1,234,567''"
  proof -
    have "imdb_votes = PStr ''1234567''"
      using iv that by (simp add: py_replace_def)
    moreover have "map_of cleaned ''imdb_votes'' = Some (replace_cell (CVal imdb_votes))"
      by (simp only: assms(2) map_of_replace_row cell_iv option.map)
    ultimately show ?thesis
      by (simp add: replace_cell_def)
  qed
qed

text \<open>
  C7. Whenever \<open>process_movies_data\<close> returns its tables, the movie dimension
  has one row for every record, in order, and in the row of a record: a
  \<^verbatim>\<open>Runtime\<close> of \<^verbatim>\<open>"148 min"\<close> gives the runtime
  \<^verbatim>\<open>"148"\<close>, a \<^verbatim>\<open>Runtime\<close> of \<^verbatim>\<open>"N/A"\<close> gives null,
  an \<^verbatim>\<open>imdbVotes\<close> of \<^verbatim>\<open>"1,234,567"\<close> gives the votes
  \<^verbatim>\<open>"1234567"\<close> (both numbers as numeral strings, which the integer columns
  of the schema take), and the row is the assembled row with every cell equal to
  \<^verbatim>\<open>"N/A"\<close> or to the empty string replaced by null, so that no such cell is
  left in the table.
\<close>

theorem movie_fields_null_coercion:
  assumes "process_movies_data released_date json_dumps movies_data
             = Inr (dim_movies_df, dim_genres_df, bridge_df)"
  shows "length dim_movies_df = length movies_data \<and>
    (\<forall>i < length movies_data.
       (dict_get (movies_data ! i) ''Runtime'' = PStr ''148 min'' \<longrightarrow>
          map_of (dim_movies_df ! i) ''runtime_minutes'' = Some (CVal (PStr ''148''))) \<and>
       (dict_get (movies_data ! i) ''Runtime'' = PStr ''N/A'' \<longrightarrow>
          map_of (dim_movies_df ! i) ''runtime_minutes'' = Some (CVal PNone)) \<and>
       (dict_get (movies_data ! i) ''imdbVotes'' = PStr ''1,234,567'' \<longrightarrow>
          map_of (dim_movies_df ! i) ''imdb_votes'' = Some (CVal (PStr ''1234567''))) \<and>
       (\<exists>row. dim_movie_row released_date json_dumps (movies_data ! i) = Inr row \<and>
          dim_movies_df ! i =
            map (\<lambda>(col, c).
                   (col, if c = CVal (PStr ''N/A'') \<or> c = CVal (PStr '''')
                         then CVal PNone else c)) row)) \<and>
    (\<forall>row \<in> set dim_movies_df. \<forall>(col, c) \<in> set row.
       c \<noteq> CVal (PStr ''N/A'') \<and> c \<noteq> CVal (PStr ''''))"
proof -
  from process_movies_data_rows [OF assms] obtain rows where
    rows: "list_all2 (\<lambda>data row. dim_movie_row released_date json_dumps data = Inr row)
             movies_data rows" and
    df: "dim_movies_df = map (map (\<lambda>(col, c). (col, replace_cell c))) rows"
    by blast
  have len: "length rows = length movies_data"
    using rows by (simp add: list_all2_lengthD)
  have length: "length dim_movies_df = length movies_data"
    by (simp add: df len)
  have each: "(dict_get (movies_data ! i) ''Runtime'' = PStr ''148 min'' \<longrightarrow>
          map_of (dim_movies_df ! i) ''runtime_minutes'' = Some (CVal (PStr ''148''))) \<and>
       (dict_get (movies_data ! i) ''Runtime'' = PStr ''N/A'' \<longrightarrow>
          map_of (dim_movies_df ! i) ''runtime_minutes'' = Some (CVal PNone)) \<and>
       (dict_get (movies_data ! i) ''imdbVotes'' = PStr ''1,234,567'' \<longrightarrow>
          map_of (dim_movies_df ! i) ''imdb_votes'' = Some (CVal (PStr ''1234567''))) \<and>
       (\<exists>row. dim_movie_row released_date json_dumps (movies_data ! i) = Inr row \<and>
          dim_movies_df ! i =
            map (\<lambda>(col, c).
                   (col, if c = CVal (PStr ''N/A'') \<or> c = CVal (PStr '''')
                         then CVal PNone else c)) row)"
    if i: "i < length movies_data" for i
  proof -
    have row: "dim_movie_row released_date json_dumps (movies_data ! i) = Inr (rows ! i)"
      using list_all2_nthD [OF rows i] by simp
    have cl: "dim_movies_df ! i = map (\<lambda>(col, c). (col, replace_cell c)) (rows ! i)"
      using i len by (simp add: df)
    have "dim_movies_df ! i =
        map (\<lambda>(col, c).
               (col, if c = CVal (PStr ''N/A'') \<or> c = CVal (PStr '''')
                     then CVal PNone else c)) (rows ! i)"
      by (simp add: cl replace_cell_def)
    with row cleaned_cells [OF row cl] show ?thesis
      by blast
  qed
  have clean: "c \<noteq> CVal (PStr ''N/A'') \<and> c \<noteq> CVal (PStr '''')"
    if "row \<in> set dim_movies_df" "(col, c) \<in> set row" for row col c
  proof -
    from that(1) obtain row0 where "row = map (\<lambda>(col, c). (col, replace_cell c)) row0"
      by (auto simp: df)
    with that(2) obtain c0 where "c = replace_cell c0"
      by auto
    then show ?thesis
      by (simp only: replace_cell_not_sentinel simp_thms)
  qed
  from length each clean show ?thesis
    by blast
qed

theorem movie_fields_null_coercion_witness:
  "process_movies_data example_released_date example_json_dumps
     [example_inception, example_heat]
     = Inr (example_dim_movies, example_dim_genres, example_bridge) \<and>
   dict_get ([example_inception, example_heat] ! 0) ''Runtime'' = PStr ''148 min'' \<and>
   map_of (example_dim_movies ! 0) ''runtime_minutes'' = Some (CVal (PStr ''148'')) \<and>
   dict_get ([example_inception, example_heat] ! 1) ''Runtime'' = PStr ''N/A'' \<and>
   map_of (example_dim_movies ! 1) ''runtime_minutes'' = Some (CVal PNone) \<and>
   dict_get ([example_inception, example_heat] ! 0) ''imdbVotes'' = PStr ''1,234,567'' \<and>
   map_of (example_dim_movies ! 0) ''imdb_votes'' = Some (CVal (PStr ''1234567'')) \<and>
   dict_get example_inception ''Plot'' = PStr '''' \<and>
   dict_get example_heat ''Plot'' = PStr ''N/A'' \<and>
   map (\<lambda>row. map_of row ''plot'') example_dim_movies = [Some (CVal PNone), Some (CVal PNone)]"
proof -
  note coercion = movie_fields_null_coercion [OF example_run]
  have fields:
    "dict_get ([example_inception, example_heat] ! 0) ''Runtime'' = PStr ''148 min''"
    "dict_get ([example_inception, example_heat] ! 1) ''Runtime'' = PStr ''N/A''"
    "dict_get ([example_inception, example_heat] ! 0) ''imdbVotes'' = PStr ''1,234,567''"
    "dict_get example_inception ''Plot'' = PStr ''''"
    "dict_get example_heat ''Plot'' = PStr ''N/A''"
    by (simp_all add: dict_get_def dict_get_default_def example_inception_def example_heat_def)
  have first: "0 < length [example_inception, example_heat]"
    and second: "1 < length [example_inception, example_heat]"
    by simp_all
  from coercion first fields(1)
  have a: "map_of (example_dim_movies ! 0) ''runtime_minutes'' = Some (CVal (PStr ''148''))"
    by blast
  from coercion second fields(2)
  have b: "map_of (example_dim_movies ! 1) ''runtime_minutes'' = Some (CVal PNone)"
    by blast
  from coercion first fields(3)
  have c: "map_of (example_dim_movies ! 0) ''imdb_votes'' = Some (CVal (PStr ''1234567''))"
    by blast
  have d: "map (\<lambda>row. map_of row ''plot'') example_dim_movies
      = [Some (CVal PNone), Some (CVal PNone)]"
    by (simp add: example_dim_movies_def)
  from example_run fields a b c d show ?thesis
    by (intro conjI)
qed

text \<open>
  C6. \<open>process_movies_data\<close> does not succeed on every list of records: the
  example record without its \<^verbatim>\<open>Genre\<close> field, or with an empty
  one, ends in \<^verbatim>\<open>KeyError\<close> (the bridge row is appended outside the test
  for an empty name), and without its \<^verbatim>\<open>Runtime\<close> or its
  \<^verbatim>\<open>imdbVotes\<close> field in \<^verbatim>\<open>AttributeError\<close> (a string method is
  called on \<^verbatim>\<open>None\<close>).
\<close>

theorem missing_fields_raise:
  "process_movies_data example_released_date example_json_dumps
     [dict_del example_inception ''Genre''] = Inl KeyError \<and>
   process_movies_data example_released_date example_json_dumps
     [dict_set example_inception ''Genre'' (PStr '''')] = Inl KeyError \<and>
   process_movies_data example_released_date example_json_dumps
     [dict_del example_inception ''Runtime''] = Inl AttributeError \<and>
   process_movies_data example_released_date example_json_dumps
     [dict_del example_inception ''imdbVotes''] = Inl AttributeError"
  by (simp add: process_movies_data_def example_inception_def
      example_released_date_def example_json_dumps_def and_then_def dict_get_def
      dict_get_default_def py_split_def py_replace_def str_split_def dim_movie_row_def
      dict_del_def Let_def)

end
